theory Spec2Isabelle
  imports Main
begin

section \<open>JavaScript values used by the content script\<close>

text \<open>
  The content script reads text out of DOM nodes, so almost every field of a flight
  record is either a string or \<open>null\<close>. A field is modelled as a \<open>string option\<close>
  (\<open>None\<close> for \<open>null\<close> and \<open>undefined\<close>). A \<open>char\<close> stands for one UTF-16 code
  unit below 256; code units above that are outside the model.

  JavaScript truthiness of such a field: \<open>null\<close>, \<open>undefined\<close> and the empty string
  are falsy, every other string is truthy.
\<close>

definition truthy :: "string option \<Rightarrow> bool" where
  "truthy v = (case v of None \<Rightarrow> False | Some s \<Rightarrow> s \<noteq> [])"

text \<open>The idiom \<^verbatim>\<open>v || ''\<close>: the string itself when truthy, the empty string otherwise.\<close>

definition or_empty :: "string option \<Rightarrow> string" where
  "or_empty v = (case v of None \<Rightarrow> [] | Some s \<Rightarrow> s)"

text \<open>
  The regular expression class \<^verbatim>\<open>\s\<close> restricted to code units below 256: tab, line
  feed, vertical tab, form feed, carriage return, space and no-break space.
\<close>

definition is_space :: "char \<Rightarrow> bool" where
  "is_space c = (of_char c \<in> {9, 10, 11, 12, 13, 32, 160 :: nat})"

text \<open>
  \<^verbatim>\<open>s.replace(/\s+/g, '_')\<close>: every maximal run of white space becomes one
  underscore.
\<close>

function replace_spaces :: "string \<Rightarrow> string" where
  "replace_spaces [] = []"
| "replace_spaces (c # cs) =
     (if is_space c then CHR ''_'' # replace_spaces (dropWhile is_space cs)
      else c # replace_spaces cs)"
  by pat_completeness auto
termination
  by (relation "measure length") (auto simp: length_dropWhile_le less_Suc_eq_le)

section \<open>Flight records\<close>

text \<open>
  \<^verbatim>\<open>extractFlightFromCard\<close> builds the record; the round-trip path adds
  \<open>direction\<close>. The fields kept are those that some decision of the driver reads
  (identity key, validity, the "already added" test) and the two that the interaction
  steps fill in. \<open>fare_options\<close> and \<open>flight_details\<close> hold the objects scraped from
  the fare popup and from the details panel; the driver only tests whether such an object
  is there and never looks inside, so its content is an opaque text here.
  \<^verbatim>\<open>extractFlightFromCard\<close> already sets \<open>fare_options\<close>, to
  \<^verbatim>\<open>extractFareOptions(card)\<close>: the content of a fare popup that is visible anywhere
  in the document at that moment, \<^verbatim>\<open>null\<close> when none is; the popup step of the
  card loop overwrites it. The remaining
  fields of the source record
  (duration, stops, offers, raw text, and the round trip's \<^verbatim>\<open>route\<close>,
  \<^verbatim>\<open>pane_index\<close>, \<^verbatim>\<open>is_return_flight\<close>) are written once and never read.
\<close>

datatype payload = Payload string

record flight =
  index :: nat
  airline :: "string option"
  airline_code :: "string option"
  flight_code :: "string option"
  departure_time :: "string option"
  departure_city :: "string option"
  arrival_time :: "string option"
  arrival_city :: "string option"
  date :: "string option"
  price :: "string option"
  direction :: "string option"
  fare_options :: "payload option"
  flight_details :: "payload option"

subsection \<open>generateFlightKey\<close>

text \<open>
  Each of the three branches ends with the same test:
  \<^verbatim>\<open>if (flight.direction) return `${flight.direction}_${key}`; return key;\<close>
\<close>

definition with_direction :: "flight \<Rightarrow> string \<Rightarrow> string" where
  "with_direction f key =
     (if truthy (direction f) then or_empty (direction f) @ ''_'' @ key else key)"

text \<open>
  A truthy field is a non-empty string, and \<open>or_empty\<close> of it is the string itself, so
  the same function renders \<^verbatim>\<open>${flight.flight_code}\<close> in the first branch and
  \<^verbatim>\<open>${flight.departure_time || ''}\<close> everywhere.
\<close>

definition generateFlightKey :: "flight \<Rightarrow> string" where
  "generateFlightKey f =
     (if truthy (flight_code f) then
        with_direction f
          (or_empty (flight_code f) @ ''_'' @ or_empty (departure_time f)
             @ ''_'' @ or_empty (arrival_time f))
      else if truthy (airline_code f) then
        with_direction f
          (or_empty (airline_code f) @ ''_'' @ or_empty (departure_time f)
             @ ''_'' @ or_empty (arrival_time f) @ ''_'' @ or_empty (departure_city f)
             @ ''_'' @ or_empty (arrival_city f))
      else
        with_direction f
          (replace_spaces (take 20 (or_empty (airline f)))
             @ ''_'' @ or_empty (departure_time f) @ ''_'' @ or_empty (arrival_time f)
             @ ''_'' @ or_empty (departure_city f) @ ''_'' @ or_empty (arrival_city f)
             @ ''_'' @ or_empty (date f)))"

subsection \<open>isDuplicateFlight\<close>

text \<open>
  \<^verbatim>\<open>seenFlights\<close> is a JavaScript \<open>Set\<close> of key strings, of which only membership
  is ever used. The function mutates it, so the model returns the answer together with
  the set after the call. The record argument is a \<open>flight option\<close>: \<open>None\<close> is a
  \<open>null\<close> or \<open>undefined\<close> record, which the first line of the source tests for.
\<close>

definition isDuplicateFlight :: "flight option \<Rightarrow> string set \<Rightarrow> bool \<times> string set" where
  "isDuplicateFlight fl seenFlights =
     (case fl of
        None \<Rightarrow> (True, seenFlights)
      | Some f \<Rightarrow>
          if generateFlightKey f \<in> seenFlights then (True, seenFlights)
          else (False, insert (generateFlightKey f) seenFlights))"

text \<open>Checking a sequence of records one after the other, threading the set through.\<close>

fun check_all :: "flight list \<Rightarrow> string set \<Rightarrow> string set" where
  "check_all [] seenFlights = seenFlights"
| "check_all (f # fs) seenFlights = check_all fs (snd (isDuplicateFlight (Some f) seenFlights))"

subsection \<open>isValidFlight\<close>

definition isValidFlight :: "flight \<Rightarrow> bool" where
  "isValidFlight f = (truthy (price f) \<or> truthy (departure_time f) \<or> truthy (arrival_time f))"

section \<open>The page as the driver observes it\<close>

text \<open>
  The driver talks to a live DOM through helper functions. Each helper is modelled by
  the answer it gives when the driver calls it: a value, or a thrown exception. The value
  an exception carries is only ever logged, so one constructor is enough.
\<close>

datatype exn = Thrown

text \<open>
  What the driver does to the page and to the console while it works on card \<open>i\<close>.
  The two \<open>Log\<close> events are the \<^verbatim>\<open>console.error\<close> calls of the two
  \<^verbatim>\<open>catch\<close> blocks of the card loop.
\<close>

datatype event =
    ClickViewPrices nat
  | ClosePopup nat
  | ClickViewFlightDetails nat
  | ClickHideFlightDetails nat
  | ClickCloseButton nat
  | LogDetailsError nat
  | LogCardError nat

text \<open>A button as the guard of the fare popup reads it.\<close>

record trigger =
  trigger_visible :: bool
  trigger_disabled :: bool

text \<open>
  What \<^verbatim>\<open>querySelector('button.ViewFareBtn')\<close> returns: the button, and whether it
  contains a \<^verbatim>\<open>span[data-test="component-buttonText"]\<close>. And what
  \<^verbatim>\<open>querySelector('span.linkText.ctaLink.viewFltDtlsCta')\<close> returns: whether the
  text of the span includes "View Flight Details", and whether the span is visible.
\<close>

record fare_button =
  has_button_text :: bool
  button :: trigger

record details_link =
  says_view_flight_details :: bool
  link_visible :: bool

text \<open>
  One card of the one-way listing. A field named after a helper of the source holds that
  helper's answer for this card. \<^verbatim>\<open>isElementVisible\<close> and the native DOM methods
  (\<^verbatim>\<open>scrollIntoView\<close>, \<^verbatim>\<open>click\<close>, \<^verbatim>\<open>querySelector\<close>) are taken not to
  throw; the one click that the source guards with its own \<^verbatim>\<open>try\<close> continues the
  same way whether it throws or not. \<^verbatim>\<open>sleep\<close> only passes time and is left out.

  \<^item> \<open>card_visible\<close>, \<open>has_time\<close>, \<open>has_price\<close>: the three tests of the enumeration
    filter (\<^verbatim>\<open>isElementVisible(card)\<close> and the two regular expressions on the text).
  \<^item> \<open>await_popup\<close>: the waits between the click and the popup extraction
    (\<^verbatim>\<open>waitForElement\<close>, \<^verbatim>\<open>waitForLoadingToComplete\<close>); their values only
    choose between further waits.
  \<^item> \<open>popup_still_visible\<close>: the value of \<^verbatim>\<open>popupStillVisible\<close> when the polling
    loop over \<^verbatim>\<open>checkIfPopupVisible\<close> ends.
  \<^item> \<open>own_button\<close>: the first \<^verbatim>\<open>button.ViewFareBtn\<close> inside the card;
    \<open>parent_button\<close>: the first one under the card's parent element, which may lie in
    the card itself or in a sibling (\<open>None\<close> also when the card has no parent).
  \<^item> \<open>own_details_link\<close>: the first span of the card with the three classes of the
    details link; \<open>labelled_span\<close>: the first span of the card whose text includes
    "View Flight Details" and that has the classes \<^verbatim>\<open>linkText\<close> and
    \<^verbatim>\<open>ctaLink\<close>, with its visibility; \<open>parent_details_link\<close>: the first span with
    the three classes under the card's parent element.
  \<^item> \<open>waitForFlightDetailsOuter\<close>: whether the panel appeared.
  \<^item> \<open>extractDetailedFlightInfoFromAllTabs\<close>: preceded by \<^verbatim>\<open>waitForLoadingToComplete\<close>.
  \<^item> \<open>findHideFlightDetailsLink\<close>: inside the \<^verbatim>\<open>try\<close>, the link with its visibility;
    \<open>findHideFlightDetailsLink_in_catch\<close>: the second call, inside the \<^verbatim>\<open>catch\<close>,
    whether a link was found.
  \<^item> \<open>close_button\<close>: whether the panel has a close button
    (\<^verbatim>\<open>flightDetailsOuter.querySelector(...)\<close>).
\<close>

record card =
  card_visible :: bool
  has_time :: bool
  has_price :: bool
  extractFlightFromCard :: "exn + flight"
  own_button :: "fare_button option"
  parent_button :: "fare_button option"
  await_popup :: "exn + unit"
  extractFareDetailsFromPopup :: "exn + payload option"
  closePopupIfOpen :: "exn + bool"
  popup_still_visible :: "exn + bool"
  closePopupIfOpen_again :: "exn + bool"
  own_details_link :: "details_link option"
  labelled_span :: "bool option"
  parent_details_link :: "details_link option"
  waitForFlightDetailsOuter :: "exn + bool"
  extractDetailedFlightInfoFromAllTabs :: "exn + payload option"
  findHideFlightDetailsLink :: "exn + bool option"
  close_button :: bool
  findHideFlightDetailsLink_in_catch :: "exn + bool"

text \<open>
  \<^verbatim>\<open>findViewPricesButtonForCard(card)\<close>: the card's own button if it carries the
  button text, else the button found from the card's parent if that one carries it, else
  \<^verbatim>\<open>null\<close>. \<open>labelled\<close> is the test both attempts share. The helper only queries
  the DOM, so it always returns; its value is injected into the result type of the other
  helpers of the card loop.
\<close>

definition labelled :: "fare_button option \<Rightarrow> trigger option" where
  "labelled q = (case q of None \<Rightarrow> None
                 | Some fb \<Rightarrow> if has_button_text fb then Some (button fb) else None)"

definition found_button :: "card \<Rightarrow> trigger option" where
  "found_button c =
     (case labelled (own_button c) of
        Some t \<Rightarrow> Some t
      | None \<Rightarrow> labelled (parent_button c))"

definition findViewPricesButtonForCard :: "card \<Rightarrow> exn + trigger option" where
  "findViewPricesButtonForCard c = Inr (found_button c)"

text \<open>
  \<^verbatim>\<open>findViewFlightDetailsLinkForCard(card)\<close>: the card's own link if its text fits,
  else the first labelled span of the card, else the link found from the card's parent if
  its text fits, else \<^verbatim>\<open>null\<close>. The value is the visibility of the element found,
  which is all the card loop reads of it.
\<close>

definition titled :: "details_link option \<Rightarrow> bool option" where
  "titled q = (case q of None \<Rightarrow> None
               | Some l \<Rightarrow> if says_view_flight_details l then Some (link_visible l) else None)"

definition found_details_link :: "card \<Rightarrow> bool option" where
  "found_details_link c =
     (case titled (own_details_link c) of
        Some v \<Rightarrow> Some v
      | None \<Rightarrow>
          (case labelled_span c of
             Some v \<Rightarrow> Some v
           | None \<Rightarrow> titled (parent_details_link c)))"

definition findViewFlightDetailsLinkForCard :: "card \<Rightarrow> exn + bool option" where
  "findViewFlightDetailsLinkForCard c = Inr (found_details_link c)"

section \<open>The card loop of extractFlightsSequentially\<close>

text \<open>
  The fare popup branch (the true branch of
  \<^verbatim>\<open>if (viewPricesButton && isElementVisible(viewPricesButton) && !viewPricesButton.disabled)\<close>).
  It returns the record, with \<open>fare_options\<close> overwritten when the popup yielded
  something, or the exception that leaves the branch, and the events so far.
\<close>

definition popup_branch :: "nat \<Rightarrow> card \<Rightarrow> flight \<Rightarrow> (exn + flight) \<times> event list" where
  "popup_branch i c f =
     (case await_popup c of
        Inl e \<Rightarrow> (Inl e, [ClickViewPrices i])
      | Inr _ \<Rightarrow>
          (case extractFareDetailsFromPopup c of
             Inl e \<Rightarrow> (Inl e, [ClickViewPrices i])
           | Inr fareDetails \<Rightarrow>
               let f' = (case fareDetails of
                           None \<Rightarrow> f
                         | Some details \<Rightarrow> f\<lparr>fare_options := Some details\<rparr>) in
               (case closePopupIfOpen c of
                  Inl e \<Rightarrow> (Inl e, [ClickViewPrices i, ClosePopup i])
                | Inr _ \<Rightarrow>
                    (case popup_still_visible c of
                       Inl e \<Rightarrow> (Inl e, [ClickViewPrices i, ClosePopup i])
                     | Inr False \<Rightarrow> (Inr f', [ClickViewPrices i, ClosePopup i])
                     | Inr True \<Rightarrow>
                         (case closePopupIfOpen_again c of
                            Inl e \<Rightarrow> (Inl e, [ClickViewPrices i, ClosePopup i, ClosePopup i])
                          | Inr _ \<Rightarrow>
                              (Inr f', [ClickViewPrices i, ClosePopup i, ClosePopup i]))))))"

text \<open>
  The body of the inner \<^verbatim>\<open>try\<close> around the details panel. The record is mutated in
  place, so it is returned even when the block is left by an exception.
\<close>

definition details_try :: "nat \<Rightarrow> card \<Rightarrow> flight \<Rightarrow> (exn + unit) \<times> flight \<times> event list" where
  "details_try i c f =
     (case waitForFlightDetailsOuter c of
        Inl e \<Rightarrow> (Inl e, f, [ClickViewFlightDetails i])
      | Inr False \<Rightarrow> (Inr (), f, [ClickViewFlightDetails i])
      | Inr True \<Rightarrow>
          (case extractDetailedFlightInfoFromAllTabs c of
             Inl e \<Rightarrow> (Inl e, f, [ClickViewFlightDetails i])
           | Inr detailedFlightInfo \<Rightarrow>
               let f' = (case detailedFlightInfo of
                           None \<Rightarrow> f
                         | Some info \<Rightarrow> f\<lparr>flight_details := Some info\<rparr>) in
               (case findHideFlightDetailsLink c of
                  Inl e \<Rightarrow> (Inl e, f', [ClickViewFlightDetails i])
                | Inr (Some True) \<Rightarrow>
                    (Inr (), f', [ClickViewFlightDetails i, ClickHideFlightDetails i])
                | Inr _ \<Rightarrow>
                    if close_button c
                    then (Inr (), f', [ClickViewFlightDetails i, ClickCloseButton i])
                    else (Inr (), f', [ClickViewFlightDetails i]))))"

text \<open>
  The inner \<^verbatim>\<open>try\<close> with its \<^verbatim>\<open>catch\<close>: the error is logged, the driver looks for
  the "Hide Flight Details" link and clicks it when found, and errors of that attempt are
  ignored. Control then reaches \<^verbatim>\<open>flights.push(flight)\<close> either way.
\<close>

definition details_branch :: "nat \<Rightarrow> card \<Rightarrow> flight \<Rightarrow> flight \<times> event list" where
  "details_branch i c f =
     (case details_try i c f of
        (Inr _, f', evs) \<Rightarrow> (f', evs)
      | (Inl e, f', evs) \<Rightarrow>
          (f', evs @ [LogDetailsError i]
               @ (case findHideFlightDetailsLink_in_catch c of
                    Inr True \<Rightarrow> [ClickHideFlightDetails i]
                  | _ \<Rightarrow> [])))"

record loop_state =
  ls_flights :: "flight list"
  ls_seen :: "string set"
  ls_events :: "event list"

text \<open>
  The body of the outer \<^verbatim>\<open>try\<close> of one loop iteration. \<^verbatim>\<open>continue\<close> and the
  normal end of the block are both \<open>Inr ()\<close>; an exception carries the state as the
  statements before it left it.
\<close>

definition popup_guard :: "trigger option \<Rightarrow> bool" where
  "popup_guard b = (case b of None \<Rightarrow> False
                    | Some t \<Rightarrow> trigger_visible t \<and> \<not> trigger_disabled t)"

definition card_try :: "nat \<Rightarrow> card \<Rightarrow> loop_state \<Rightarrow> (exn + unit) \<times> loop_state" where
  "card_try i c st =
     (case extractFlightFromCard c of
        Inl e \<Rightarrow> (Inl e, st)
      | Inr f0 \<Rightarrow>
          let f = f0\<lparr>index := i\<rparr> in
          if \<not> isValidFlight f then (Inr (), st)
          else
            (case isDuplicateFlight (Some f) (ls_seen st) of
               (True, seen) \<Rightarrow> (Inr (), st\<lparr>ls_seen := seen\<rparr>)
             | (False, seen) \<Rightarrow>
                 (case findViewPricesButtonForCard c of
                    Inl e \<Rightarrow> (Inl e, st\<lparr>ls_seen := seen\<rparr>)
                  | Inr viewPricesButton \<Rightarrow>
                      (case (if popup_guard viewPricesButton then popup_branch i c f
                             else (Inr f, [])) of
                         (Inl e, evs) \<Rightarrow>
                           (Inl e, st\<lparr>ls_seen := seen, ls_events := ls_events st @ evs\<rparr>)
                       | (Inr f1, evs) \<Rightarrow>
                           (case findViewFlightDetailsLinkForCard c of
                              Inl e \<Rightarrow>
                                (Inl e, st\<lparr>ls_seen := seen, ls_events := ls_events st @ evs\<rparr>)
                            | Inr viewFlightDetailsLink \<Rightarrow>
                                (case (if viewFlightDetailsLink = Some True
                                       then details_branch i c f1 else (f1, [])) of
                                   (f2, evs2) \<Rightarrow>
                                     (Inr (),
                                      st\<lparr>ls_flights := ls_flights st @ [f2],
                                         ls_seen := seen,
                                         ls_events := ls_events st @ evs @ evs2\<rparr>)))))))"

text \<open>One iteration: the outer \<^verbatim>\<open>try\<close> with its \<^verbatim>\<open>catch\<close>, which only logs.\<close>

definition process_card :: "nat \<Rightarrow> card \<Rightarrow> loop_state \<Rightarrow> loop_state" where
  "process_card i c st =
     (case card_try i c st of
        (Inr _, st') \<Rightarrow> st'
      | (Inl e, st') \<Rightarrow> st'\<lparr>ls_events := ls_events st' @ [LogCardError i]\<rparr>)"

text \<open>\<^verbatim>\<open>for (let index = 0; index < visibleCards.length; index++)\<close>, from index \<open>i\<close> on.\<close>

fun process_cards :: "nat \<Rightarrow> card list \<Rightarrow> loop_state \<Rightarrow> loop_state" where
  "process_cards i [] st = st"
| "process_cards i (c # cs) st = process_cards (Suc i) cs (process_card i c st)"

text \<open>The enumeration that feeds the loop: the filter and the cut at \<^verbatim>\<open>maxFlights\<close>.\<close>

definition maxFlights :: nat where
  "maxFlights = 200"

definition validCards :: "card list \<Rightarrow> card list" where
  "validCards flightCards =
     filter (\<lambda>c. card_visible c \<and> (has_time c \<or> has_price c)) flightCards"

definition visibleCards :: "card list \<Rightarrow> card list" where
  "visibleCards flightCards = take maxFlights (validCards flightCards)"

definition initial_state :: loop_state where
  "initial_state = \<lparr>ls_flights = [], ls_seen = {}, ls_events = []\<rparr>"

section \<open>The round-trip panes\<close>

text \<open>
  What the details panel yields in the round-trip path: the payload that
  \<^verbatim>\<open>Object.assign\<close> merges into the record, and the first segment of the first
  detailed flight when there is one.
\<close>

record segment =
  airline_name :: "string option"
  full_flight_code :: "string option"
  segment_airline_code :: "string option"

record detailed_info =
  info_payload :: payload
  first_segment :: "segment option"

text \<open>
  One card of a round-trip pane. \<open>rt_data_test\<close>, \<open>rt_id\<close> and \<open>rt_text\<close> are the two
  attributes and the text from which the card identifier is built.
\<close>

record rt_card =
  rt_group_placeholder :: bool
  rt_in_collapsed_group :: bool
  rt_has_time :: bool
  rt_has_price :: bool
  rt_visible :: bool
  rt_data_test :: "string option"
  rt_id :: "string option"
  rt_text :: string
  rt_extractFlightFromCard :: "exn + flight"
  rt_findFlightDetailsLink :: "exn + bool"
  rt_extractDetailedFlightInfoFromAllTabs :: "exn + detailed_info option"

text \<open>
  A pane of the split view. \<open>validation_cards\<close> is the number of elements that the
  validation selector matches in it; \<open>paneCards\<close> is the outcome of the selector cascade
  of step 2, \<open>allCardsNow\<close> that of the second query in step 4. \<open>scrollHeight\<close> and
  \<open>clientHeight\<close> are the pane's two DOM properties.
\<close>

record pane =
  validation_cards :: nat
  dateText :: "string option"
  clickOptionsAvailableLinksInPane :: "exn + unit"
  scrollHeight :: nat
  clientHeight :: nat
  paneCards :: "rt_card list"
  allCardsNow :: "rt_card list"

text \<open>
  The lazy-loading scroll:
  \<^verbatim>\<open>for (let scrollPos = 0; scrollPos < scrollHeight; scrollPos += scrollStep)\<close> with
  \<^verbatim>\<open>scrollStep = clientHeight * 0.8\<close>. Positions are counted in tenths of a pixel, so
  the step is \<open>8 * clientHeight\<close> and the bound \<open>10 * scrollHeight\<close>. Nothing in the loop
  ends it when the step is zero, so the model is a partial function.
\<close>

partial_function (option) scroll_pane :: "nat \<Rightarrow> nat \<Rightarrow> nat \<Rightarrow> unit option" where
  "scroll_pane scrollPos bound scrollStep =
     (if scrollPos < bound then scroll_pane (scrollPos + scrollStep) bound scrollStep
      else Some ())"

text \<open>Decimal rendering of an index inside a template literal.\<close>

function show_nat :: "nat \<Rightarrow> string" where
  "show_nat n =
     (if n < 10 then [char_of (48 + n)]
      else show_nat (n div 10) @ [char_of (48 + n mod 10)])"
  by pat_completeness auto
termination
  by (relation "measure id") auto

declare show_nat.simps [simp del]

text \<open>
  \<^verbatim>\<open>card.getAttribute('data-test') || card.getAttribute('id') ||
  `${cardIndex}-${card.textContent?.substring(0, 50) || 'unknown'}`\<close>
\<close>

definition rt_card_id :: "nat \<Rightarrow> rt_card \<Rightarrow> string" where
  "rt_card_id cardIndex c =
     (if truthy (rt_data_test c) then or_empty (rt_data_test c)
      else if truthy (rt_id c) then or_empty (rt_id c)
      else show_nat cardIndex @ ''-''
             @ (if take 50 (rt_text c) = [] then ''unknown'' else take 50 (rt_text c)))"

text \<open>The two filters of step 2: actual flight cards, then visible ones.\<close>

definition allActualCards :: "rt_card list \<Rightarrow> rt_card list" where
  "allActualCards cards =
     filter (\<lambda>c. \<not> rt_group_placeholder c \<and> \<not> rt_in_collapsed_group c
                 \<and> (rt_has_time c \<or> rt_has_price c)) cards"

definition visiblePaneCards :: "pane \<Rightarrow> rt_card list" where
  "visiblePaneCards p = filter rt_visible (allActualCards (paneCards p))"

text \<open>
  The fields that the round-trip path sets on a freshly extracted record:
  \<^verbatim>\<open>flight.direction = direction; flight.date = dateText || flight.date\<close>.
\<close>

definition rt_annotate :: "nat \<Rightarrow> string \<Rightarrow> string option \<Rightarrow> flight \<Rightarrow> flight" where
  "rt_annotate globalIndex dir dateTxt f =
     f\<lparr>index := globalIndex, direction := Some dir,
       date := (if truthy dateTxt then dateTxt else date f)\<rparr>"

text \<open>
  Merging the details into the record: the payload, then airline, flight code and
  carrier code from the first segment, each only when the record has none yet.
\<close>

definition merge_details :: "flight \<Rightarrow> detailed_info \<Rightarrow> flight" where
  "merge_details f info =
     (let f1 = f\<lparr>flight_details := Some (info_payload info)\<rparr> in
      case first_segment info of
        None \<Rightarrow> f1
      | Some firstSegment \<Rightarrow>
          let f2 = (if \<not> truthy (airline f1) \<and> truthy (airline_name firstSegment)
                    then f1\<lparr>airline := airline_name firstSegment\<rparr> else f1);
              f3 = (if \<not> truthy (flight_code f2) \<and> truthy (full_flight_code firstSegment)
                    then f2\<lparr>flight_code := full_flight_code firstSegment\<rparr> else f2)
          in (if \<not> truthy (airline_code f3) \<and> truthy (segment_airline_code firstSegment)
              then f3\<lparr>airline_code := segment_airline_code firstSegment\<rparr> else f3))"

text \<open>
  Selecting the card and reading its details. Both \<^verbatim>\<open>try\<close> blocks of this step
  swallow their exceptions, so the step always yields the record, merged or not.
\<close>

definition rt_details_step :: "rt_card \<Rightarrow> flight \<Rightarrow> flight" where
  "rt_details_step c f =
     (case rt_findFlightDetailsLink c of
        Inl e \<Rightarrow> f
      | Inr False \<Rightarrow> f
      | Inr True \<Rightarrow>
          (case rt_extractDetailedFlightInfoFromAllTabs c of
             Inl e \<Rightarrow> f
           | Inr None \<Rightarrow> f
           | Inr (Some detailedFlightInfo) \<Rightarrow> merge_details f detailedFlightInfo))"

text \<open>A \<open>null\<close> field inside a template literal prints as the word \<open>null\<close>.\<close>

definition render :: "string option \<Rightarrow> string" where
  "render v = (case v of None \<Rightarrow> ''null'' | Some s \<Rightarrow> s)"

record rt_state =
  rt_flights :: "flight list"
  rt_seen :: "string set"
  rt_processed :: "string set"

text \<open>
  One iteration of the loop of step 3. The first three lines are outside the
  \<^verbatim>\<open>try\<close>; an exception of the extractor ends the iteration with the card marked as
  processed. The record is added only when the second call of \<open>isDuplicateFlight\<close>
  reports it as new.
\<close>

definition rt_process_card ::
  "string \<Rightarrow> string option \<Rightarrow> nat \<Rightarrow> rt_card \<Rightarrow> rt_state \<Rightarrow> rt_state" where
  "rt_process_card dir dateTxt cardIndex c st =
     (if rt_card_id cardIndex c \<in> rt_processed st then st
      else
        let st1 = st\<lparr>rt_processed := insert (rt_card_id cardIndex c) (rt_processed st)\<rparr> in
        case rt_extractFlightFromCard c of
          Inl e \<Rightarrow> st1
        | Inr f0 \<Rightarrow>
            let f = rt_annotate (length (rt_flights st)) dir dateTxt f0 in
            if \<not> isValidFlight f then st1
            else
              (case isDuplicateFlight (Some f) (rt_seen st1) of
                 (True, seen) \<Rightarrow> st1\<lparr>rt_seen := seen\<rparr>
               | (False, seen) \<Rightarrow>
                   let f' = rt_details_step c f in
                   if \<not> isValidFlight f' then st1\<lparr>rt_seen := seen\<rparr>
                   else
                     (case isDuplicateFlight (Some f') seen of
                        (True, seen') \<Rightarrow> st1\<lparr>rt_seen := seen'\<rparr>
                      | (False, seen') \<Rightarrow>
                          if (\<exists>g \<in> set (rt_flights st).
                                departure_time g = departure_time f'
                                \<and> arrival_time g = arrival_time f'
                                \<and> airline g = airline f'
                                \<and> direction g = direction f')
                          then st1\<lparr>rt_seen := seen'\<rparr>
                          else st1\<lparr>rt_flights := rt_flights st @ [f'],
                                  rt_seen := insert (render (direction f') @ ''-''
                                               @ render (airline f') @ ''-''
                                               @ render (departure_time f') @ ''-''
                                               @ render (arrival_time f')) seen'\<rparr>)))"

fun rt_process_cards ::
  "string \<Rightarrow> string option \<Rightarrow> nat \<Rightarrow> rt_card list \<Rightarrow> rt_state \<Rightarrow> rt_state" where
  "rt_process_cards dir dateTxt cardIndex [] st = st"
| "rt_process_cards dir dateTxt cardIndex (c # cs) st =
     rt_process_cards dir dateTxt (Suc cardIndex) cs (rt_process_card dir dateTxt cardIndex c st)"

text \<open>Step 4, the cards of the second query that were not processed, one at a time.\<close>

definition rt_process_missed :: "string \<Rightarrow> string option \<Rightarrow> rt_card \<Rightarrow> rt_state \<Rightarrow> rt_state" where
  "rt_process_missed dir dateTxt c st =
     (case rt_extractFlightFromCard c of
        Inl e \<Rightarrow> st
      | Inr f0 \<Rightarrow>
          let f = rt_annotate (length (rt_flights st)) dir dateTxt f0 in
          if \<not> isValidFlight f then st
          else
            (case isDuplicateFlight (Some f) (rt_seen st) of
               (True, seen) \<Rightarrow> st\<lparr>rt_seen := seen\<rparr>
             | (False, seen) \<Rightarrow> st\<lparr>rt_flights := rt_flights st @ [f], rt_seen := seen\<rparr>))"

fun enumerate_from :: "nat \<Rightarrow> 'a list \<Rightarrow> (nat \<times> 'a) list" where
  "enumerate_from i [] = []"
| "enumerate_from i (x # xs) = (i, x) # enumerate_from (Suc i) xs"

definition missedCards :: "pane \<Rightarrow> string set \<Rightarrow> rt_card list" where
  "missedCards p processedCards =
     map snd
       (filter (\<lambda>(idx, c). rt_card_id idx c \<notin> processedCards)
          (enumerate_from 0
             (filter (\<lambda>c. \<not> rt_group_placeholder c \<and> \<not> rt_in_collapsed_group c
                          \<and> (rt_has_time c \<or> rt_has_price c) \<and> rt_visible c)
                (allCardsNow p))))"

text \<open>
  Steps 2 to 4 for one pane, once the scroll has finished. \<open>processedCards\<close> starts
  empty for every pane.
\<close>

definition rt_pane_cards :: "nat \<Rightarrow> pane \<Rightarrow> rt_state \<Rightarrow> rt_state" where
  "rt_pane_cards paneIndex p st =
     (let dir = (if paneIndex = 0 then ''outbound'' else ''return'');
          st1 = rt_process_cards dir (dateText p) 0 (visiblePaneCards p)
                  (st\<lparr>rt_processed := {}\<rparr>)
      in if card (rt_processed st1) < length (visiblePaneCards p)
         then fold (rt_process_missed dir (dateText p)) (missedCards p (rt_processed st1)) st1
         else st1)"

text \<open>
  The loop over the panes. An exception of \<^verbatim>\<open>clickOptionsAvailableLinksInPane\<close> is
  not caught inside the function; a scroll that never ends gives no result at all.
\<close>

fun rt_process_panes :: "nat \<Rightarrow> pane list \<Rightarrow> rt_state \<Rightarrow> (exn + rt_state) option" where
  "rt_process_panes paneIndex [] st = Some (Inr st)"
| "rt_process_panes paneIndex (p # ps) st =
     (case clickOptionsAvailableLinksInPane p of
        Inl e \<Rightarrow> Some (Inl e)
      | Inr _ \<Rightarrow>
          (case scroll_pane 0 (10 * scrollHeight p) (8 * clientHeight p) of
             None \<Rightarrow> None
           | Some _ \<Rightarrow> rt_process_panes (Suc paneIndex) ps (rt_pane_cards paneIndex p st)))"

section \<open>Structure validation and the extraction entry points\<close>

text \<open>
  The listing page. \<open>intlParam\<close> is the \<^verbatim>\<open>intl\<close> parameter of the URL,
  \<open>splitView\<close> the panes of the \<^verbatim>\<open>div.splitVw\<close> container when the page has one,
  \<open>listingCards\<close> the number of elements matching
  \<^verbatim>\<open>div.listingCard, div[class*="listingCard"]\<close>. \<open>cards_before_extraction\<close> and
  \<open>cards_after_wait\<close> are the two counts that \<^verbatim>\<open>performAutoExtraction\<close> takes.
  The structure that validation reads is taken to be the same each time it is read.
\<close>

record page =
  intlParam :: "string option"
  detectTripTypeFromUI :: "exn + string"
  splitView :: "pane list option"
  listingCards :: nat
  uncheckNonStopFilter :: "exn + unit"
  clickAllOptionsAvailableLinks :: "exn + unit"
  clickMoreFlightsLink :: "exn + unit"
  findFlightCards :: "exn + card list"
  findFlightCardsFallback :: "exn + card list"
  cards_before_extraction :: nat
  cards_after_wait :: nat

text \<open>
  The value of \<^verbatim>\<open>validateDomesticTripStructure\<close>: \<open>Inl\<close> the error text when
  \<^verbatim>\<open>valid\<close> is false, \<open>Inr\<close> the validated panes (empty for a one-way page) when
  it is true.
\<close>

definition validateDomesticTripStructure :: "string \<Rightarrow> page \<Rightarrow> string + pane list" where
  \<open>validateDomesticTripStructure tripType pg =
     (if tripType = ''round_trip'' then
        (case splitView pg of
           None \<Rightarrow> Inl ''DOMESTIC round trip structure not found. Required element: div.splitVw''
         | Some panes \<Rightarrow>
             if length panes = 0 then
               Inl ''No panes found in splitVw. Required: div.paneView elements''
             else if sum_list (map validation_cards panes) = 0 then
               Inl ''No flight cards found in panes. Please wait for page to load completely.''
             else Inr panes)
      else if intlParam pg = Some ''true'' then
        Inl ''URL indicates international trip (intl=true). Use "Extract International Flights" button.''
      else if listingCards pg = 0 then
        Inl ''No flight cards found. Required: div.listingCard elements. Please wait for page to load completely.''
      else Inr [])\<close>

text \<open>
  The result payload. Of the metadata only the two fields that depend on the run are
  kept; time stamps, URL and user agent are readings of the environment.
\<close>

record metadata =
  flights_count :: nat
  trip_type :: string

record result =
  metadata :: metadata
  flights :: "flight list"
  error :: "string option"

definition error_result :: "string \<Rightarrow> string \<Rightarrow> result" where
  "error_result tripType errorMsg =
     \<lparr>metadata = \<lparr>flights_count = 0, trip_type = tripType\<rparr>, flights = [],
      error = Some errorMsg\<rparr>"

definition flights_result :: "string \<Rightarrow> flight list \<Rightarrow> result" where
  "flights_result tripType fs =
     \<lparr>metadata = \<lparr>flights_count = length fs, trip_type = tripType\<rparr>, flights = fs,
      error = None\<rparr>"

text \<open>
  \<^verbatim>\<open>extractRoundTripFlights(startTime, maxFlights)\<close>. The second parameter is never
  read ("maxFlights is ignored for round trips - we process ALL cards from both panes").
  Validation hands over a non-empty list of panes, so the further queries for panes that
  the source keeps for an empty list never run; its test for a list that is still empty
  is kept. \<open>None\<close>: the call does not return; \<open>Some (Inl e)\<close>: it throws.
\<close>

definition extractRoundTripFlights :: "nat \<Rightarrow> page \<Rightarrow> (exn + result) option" where
  "extractRoundTripFlights maxFl pg =
     (case validateDomesticTripStructure ''round_trip'' pg of
        Inl err \<Rightarrow> Some (Inr (error_result ''round_trip'' (''Validation failed: '' @ err)))
      | Inr panes \<Rightarrow>
          if length panes = 0 then
            Some (Inr (error_result ''round_trip'' ''No panes found in split view after validation''))
          else
            (case rt_process_panes 0 panes \<lparr>rt_flights = [], rt_seen = {}, rt_processed = {}\<rparr> of
               None \<Rightarrow> None
             | Some (Inl e) \<Rightarrow> Some (Inl e)
             | Some (Inr st) \<Rightarrow> Some (Inr (flights_result ''round_trip'' (rt_flights st)))))"

text \<open>
  The body of the \<^verbatim>\<open>try\<close> of \<^verbatim>\<open>extractFlightsSequentially\<close>. It ends in one of
  three ways: a \<^verbatim>\<open>return\<close> inside the block (\<open>Inr (Inl r)\<close>), its normal end with the
  collected \<^verbatim>\<open>flights\<close> (\<open>Inr (Inr fs)\<close>), or an exception (\<open>Inl e\<close>).
\<close>

definition resolve_trip_type :: "string option \<Rightarrow> page \<Rightarrow> exn + string" where
  "resolve_trip_type tripType pg =
     (if truthy tripType then Inr (or_empty tripType) else detectTripTypeFromUI pg)"

definition one_way_cards :: "page \<Rightarrow> exn + card list" where
  "one_way_cards pg =
     (case uncheckNonStopFilter pg of Inl e \<Rightarrow> Inl e | Inr _ \<Rightarrow>
      case clickAllOptionsAvailableLinks pg of Inl e \<Rightarrow> Inl e | Inr _ \<Rightarrow>
      case clickMoreFlightsLink pg of Inl e \<Rightarrow> Inl e | Inr _ \<Rightarrow>
      case findFlightCards pg of Inl e \<Rightarrow> Inl e | Inr flightCards \<Rightarrow>
        if length flightCards = 0 then findFlightCardsFallback pg else Inr flightCards)"

definition sequential_try ::
  "string option \<Rightarrow> page \<Rightarrow> (exn + (result + flight list)) option" where
  "sequential_try tripType pg =
     (case resolve_trip_type tripType pg of
        Inl e \<Rightarrow> Some (Inl e)
      | Inr tt \<Rightarrow>
          (case validateDomesticTripStructure tt pg of
             Inl err \<Rightarrow>
               Some (Inr (Inl (error_result (if tt \<noteq> [] then tt else ''domestic'')
                                  (''Validation failed: '' @ err))))
           | Inr _ \<Rightarrow>
               if tt = ''round_trip'' then
                 (case extractRoundTripFlights maxFlights pg of
                    None \<Rightarrow> None
                  | Some (Inl e) \<Rightarrow> Some (Inl e)
                  | Some (Inr r) \<Rightarrow> Some (Inr (Inl r)))
               else
                 (case one_way_cards pg of
                    Inl e \<Rightarrow> Some (Inl e)
                  | Inr flightCards \<Rightarrow>
                      if length flightCards = 0 then
                        Some (Inr (Inl (error_result ''one_way''
                          ''No flight cards found. Please wait for page to load completely or check if you are on a flight listing page.'')))
                      else
                        Some (Inr (Inr (ls_flights
                          (process_cards 0 (visibleCards flightCards) initial_state)))))))"

text \<open>
  The whole function: the \<^verbatim>\<open>catch\<close> of the outer \<^verbatim>\<open>try\<close> only logs, and the
  statements after it build the one-way payload from \<^verbatim>\<open>flights\<close>. Every statement
  that can throw comes before the first \<^verbatim>\<open>push\<close>, so after an exception the list is
  empty.
\<close>

definition extractFlightsSequentially :: "string option \<Rightarrow> page \<Rightarrow> (exn + result) option" where
  "extractFlightsSequentially tripType pg =
     (case sequential_try tripType pg of
        None \<Rightarrow> None
      | Some (Inl e) \<Rightarrow> Some (Inr (flights_result ''one_way'' []))
      | Some (Inr (Inl r)) \<Rightarrow> Some (Inr r)
      | Some (Inr (Inr fs)) \<Rightarrow> Some (Inr (flights_result ''one_way'' fs)))"

section \<open>The batch orchestrator\<close>

text \<open>
  The batch state lives in session storage under the key \<^verbatim>\<open>remainingRoutes\<close>, the
  parameters of the job that the next page load will run under \<^verbatim>\<open>pendingExtraction\<close>.
  Both are written with \<^verbatim>\<open>JSON.stringify\<close> and read back with \<^verbatim>\<open>JSON.parse\<close>;
  the model stores the values themselves. Routes carry their two airport codes, offsets
  are whole days.
\<close>

record route_spec =
  source :: string
  dest :: string

record batch_state =
  routes :: "route_spec list"
  dateOffsets :: "int list"
  currentRouteIndex :: nat
  currentDateIndex :: nat

record extraction_params =
  sourceCode :: string
  destCode :: string
  daysOffset :: "int option"

text \<open>
  \<^verbatim>\<open>constructFlightSearchUrl(route.source, route.dest, departureDate, 'O', false, 1, 0, 0, 'E')\<close>
  with \<^verbatim>\<open>departureDate\<close> today plus the offset: the address is determined by the two
  codes, the offset and the day the script runs, and is kept as the first three.
\<close>

record search_url =
  url_source :: string
  url_dest :: string
  url_days_offset :: int

text \<open>
  The calls of \<^verbatim>\<open>chrome.runtime.sendMessage\<close>. Whether a call is delivered, or throws
  because nobody listens, changes nothing for the caller: \<^verbatim>\<open>sendProgressUpdate\<close>
  swallows every error.
\<close>

datatype message =
    ProgressUpdate nat nat string "int option"
  | SaveJSON result extraction_params

record browser =
  remainingRoutes :: "batch_state option"
  pendingExtraction :: "extraction_params option"
  messages :: "message list"
  location :: "search_url option"
  autoExtractMode :: bool
  clock :: int

definition sendProgressUpdate ::
  "nat \<Rightarrow> nat \<Rightarrow> string \<Rightarrow> int option \<Rightarrow> browser \<Rightarrow> browser" where
  "sendProgressUpdate completed totalCount route dateOffset b =
     b\<lparr>messages := messages b @ [ProgressUpdate completed totalCount route dateOffset]\<rparr>"

text \<open>
  The persisting, parameter passing and navigation that the first two branches of
  \<^verbatim>\<open>processNextRoute\<close> share, in the order of the source: the batch state is
  rewritten first; then \<^verbatim>\<open>departureDate.toISOString()\<close> is evaluated for the
  parameters, and it throws \<^verbatim>\<open>RangeError\<close> when the date is invalid, which skips
  the writing of the parameters and the navigation (the \<^verbatim>\<open>catch\<close> of
  \<^verbatim>\<open>processNextRoute\<close> only logs). \<open>clock\<close> is the time value of
  \<^verbatim>\<open>new Date()\<close> in milliseconds; \<^verbatim>\<open>setDate\<close> moves it by whole days and
  leaves an invalid date when the result is further than 8.64e15 ms from the epoch. The
  hour that a change of daylight saving time adds or removes is left out. Building the
  address from an invalid date does not throw.
\<close>

definition valid_departure :: "int \<Rightarrow> int \<Rightarrow> bool" where
  "valid_departure t offset = (\<bar>t + offset * 86400000\<bar> \<le> 8640000000000000)"

definition navigate_to :: "batch_state \<Rightarrow> route_spec \<Rightarrow> int \<Rightarrow> browser \<Rightarrow> browser" where
  "navigate_to next route offset b =
     (let b1 = b\<lparr>remainingRoutes := Some next\<rparr> in
      if valid_departure (clock b) offset then
        b1\<lparr>pendingExtraction :=
             Some \<lparr>sourceCode = source route, destCode = dest route, daysOffset = Some offset\<rparr>,
           location :=
             Some \<lparr>url_source = source route, url_dest = dest route, url_days_offset = offset\<rparr>\<rparr>
      else b1)"

text \<open>
  \<^verbatim>\<open>processNextRoute\<close>. Its body is one \<^verbatim>\<open>try\<close> whose \<^verbatim>\<open>catch\<close> only logs.
  Two statements can throw: reading \<^verbatim>\<open>currentRoute.source\<close> when the route index is
  out of range, before anything has been done; and \<^verbatim>\<open>toISOString\<close> of an invalid
  departure date, after the batch state has been rewritten. The date is invalid when the
  offset carries it out of range, in either navigating branch, and always in the second
  branch with an empty offset list, where the offset read is \<^verbatim>\<open>undefined\<close>.
\<close>

definition processNextRoute :: "browser \<Rightarrow> browser" where
  "processNextRoute b =
     (case remainingRoutes b of
        None \<Rightarrow> b
      | Some d \<Rightarrow>
          let totalCombinations = length (routes d) * length (dateOffsets d);
              completed = currentRouteIndex d * length (dateOffsets d) + currentDateIndex d + 1
          in
          if \<not> currentRouteIndex d < length (routes d) then b
          else
            let currentRoute = routes d ! currentRouteIndex d;
                b1 = sendProgressUpdate completed totalCombinations
                       (source currentRoute @ ''-'' @ dest currentRoute)
                       (if currentDateIndex d < length (dateOffsets d)
                        then Some (dateOffsets d ! currentDateIndex d) else None) b
            in
            if int (currentDateIndex d) < int (length (dateOffsets d)) - 1 then
              navigate_to (d\<lparr>currentDateIndex := currentDateIndex d + 1\<rparr>)
                currentRoute (dateOffsets d ! (currentDateIndex d + 1)) b1
            else if int (currentRouteIndex d) < int (length (routes d)) - 1 then
              (case dateOffsets d of
                 [] \<Rightarrow>
                   b1\<lparr>remainingRoutes :=
                        Some (d\<lparr>currentRouteIndex := currentRouteIndex d + 1,
                                currentDateIndex := 0\<rparr>)\<rparr>
               | offset # _ \<Rightarrow>
                   navigate_to (d\<lparr>currentRouteIndex := currentRouteIndex d + 1,
                                  currentDateIndex := 0\<rparr>)
                     (routes d ! (currentRouteIndex d + 1)) offset b1)
            else
              (sendProgressUpdate totalCombinations totalCombinations ''All'' None b1)
                \<lparr>remainingRoutes := None, pendingExtraction := None\<rparr>)"

text \<open>
  \<^verbatim>\<open>performAutoExtraction(params)\<close>, run after a page load. Every path, the
  \<^verbatim>\<open>catch\<close> included, resets \<^verbatim>\<open>autoExtractMode\<close> and ends with
  \<^verbatim>\<open>processNextRoute()\<close>; only a run that found flights sends them off for saving
  first. \<open>None\<close>: the extraction never returns.
\<close>

definition performAutoExtraction ::
  "extraction_params \<Rightarrow> page \<Rightarrow> browser \<Rightarrow> browser option" where
  "performAutoExtraction params pg b =
     (if intlParam pg = Some ''true'' then
        Some (processNextRoute (b\<lparr>autoExtractMode := False\<rparr>))
      else if cards_before_extraction pg = 0 \<and> cards_after_wait pg = 0 then
        Some (processNextRoute (b\<lparr>autoExtractMode := False\<rparr>))
      else
        (case detectTripTypeFromUI pg of
           Inl e \<Rightarrow> Some (processNextRoute (b\<lparr>autoExtractMode := False\<rparr>))
         | Inr tripType \<Rightarrow>
             (case extractFlightsSequentially (Some tripType) pg of
                None \<Rightarrow> None
              | Some (Inl e) \<Rightarrow> Some (processNextRoute (b\<lparr>autoExtractMode := False\<rparr>))
              | Some (Inr flightData) \<Rightarrow>
                  if length (flights flightData) > 0 then
                    Some (processNextRoute
                            (b\<lparr>messages := messages b @ [SaveJSON flightData params],
                               autoExtractMode := False\<rparr>))
                  else Some (processNextRoute (b\<lparr>autoExtractMode := False\<rparr>)))))"

section \<open>The spec's deduplication policy, written as functions\<close>

text \<open>
  The record a card yields before any interaction: the extractor's record with the
  index set, when the extractor returns and the record is valid.
\<close>

definition summary :: "nat \<Rightarrow> card \<Rightarrow> flight option" where
  "summary i c =
     (case extractFlightFromCard c of
        Inl e \<Rightarrow> None
      | Inr f0 \<Rightarrow> if isValidFlight (f0\<lparr>index := i\<rparr>) then Some (f0\<lparr>index := i\<rparr>) else None)"



text \<open>A record without what the fare popup and the details panel may have added.\<close>

definition summary_fields :: "flight \<Rightarrow> flight" where
  "summary_fields f = f\<lparr>fare_options := None, flight_details := None\<rparr>"

text \<open>
  The spec's description of the key, written as data: the identity fields in priority
  order (flight code, else carrier code, else carrier name), to be joined by
  underscores. It is compared with \<open>generateFlightKey\<close> below.
\<close>

definition priority_fields :: "flight \<Rightarrow> string list" where
  "priority_fields f =
     (if truthy (flight_code f) then
        [or_empty (flight_code f), or_empty (departure_time f), or_empty (arrival_time f)]
      else if truthy (airline_code f) then
        [or_empty (airline_code f), or_empty (departure_time f), or_empty (arrival_time f),
         or_empty (departure_city f), or_empty (arrival_city f)]
      else
        [replace_spaces (take 20 (or_empty (airline f))), or_empty (departure_time f),
         or_empty (arrival_time f), or_empty (departure_city f), or_empty (arrival_city f),
         or_empty (date f)])"

fun underscore_join :: "string list \<Rightarrow> string" where
  "underscore_join [] = []"
| "underscore_join [x] = x"
| "underscore_join (x # y # ys) = x @ ''_'' @ underscore_join (y # ys)"

text \<open>Two records agree on every field that the spec names as part of the identity.\<close>

definition same_identity_fields :: "flight \<Rightarrow> flight \<Rightarrow> bool" where
  "same_identity_fields f g =
     (flight_code f = flight_code g \<and> airline_code f = airline_code g \<and> airline f = airline g
      \<and> departure_time f = departure_time g \<and> arrival_time f = arrival_time g
      \<and> departure_city f = departure_city g \<and> arrival_city f = arrival_city g
      \<and> date f = date g)"

text \<open>Sample records: one flight as the outbound pane and as the return pane list it.\<close>

definition sample_flight :: flight where
  "sample_flight =
     \<lparr>index = 0, airline = Some ''IndiGo'', airline_code = Some ''6E'',
      flight_code = Some ''6E 2124'', departure_time = Some ''06:15'',
      departure_city = Some ''Bengaluru'', arrival_time = Some ''08:45'',
      arrival_city = Some ''Patna'', date = None, price = Some ''5,499'',
      direction = None, fare_options = None, flight_details = None\<rparr>"

definition sample_outbound :: flight where
  "sample_outbound = sample_flight\<lparr>direction := Some ''outbound''\<rparr>"

definition sample_return :: flight where
  "sample_return = sample_flight\<lparr>direction := Some ''return''\<rparr>"

section \<open>Auxiliary notions for the proofs\<close>



text \<open>
  A sample card that shows a flight and nothing to click: no "View Prices" button and no
  "View Flight Details" link.
\<close>

definition plain_card :: "flight \<Rightarrow> card" where
  "plain_card f =
     \<lparr>card_visible = True, has_time = True, has_price = True,
      extractFlightFromCard = Inr f,
      own_button = None,
      parent_button = None,
      await_popup = Inr (),
      extractFareDetailsFromPopup = Inr None,
      closePopupIfOpen = Inr False,
      popup_still_visible = Inr False,
      closePopupIfOpen_again = Inr False,
      own_details_link = None,
      labelled_span = None,
      parent_details_link = None,
      waitForFlightDetailsOuter = Inr False,
      extractDetailedFlightInfoFromAllTabs = Inr None,
      findHideFlightDetailsLink = Inr None,
      close_button = False,
      findHideFlightDetailsLink_in_catch = Inr False\<rparr>"

text \<open>Two cards that list the same flight at two prices.\<close>

definition duplicate_cards :: "card list" where
  "duplicate_cards = [plain_card sample_flight, plain_card (sample_flight\<lparr>price := Some ''6,100''\<rparr>)]"

text \<open>
  Sample cards: one whose "View Prices" button is disabled; one whose fare popup opens
  but cannot be read; one whose details panel never answers. And a one-way listing page
  showing the two duplicate cards.
\<close>

definition disabled_trigger_card :: card where
  "disabled_trigger_card =
     (plain_card sample_flight)
       \<lparr>own_button :=
          Some \<lparr>has_button_text = True,
                button = \<lparr>trigger_visible = True, trigger_disabled = True\<rparr>\<rparr>\<rparr>"

definition popup_failing_card :: card where
  "popup_failing_card =
     (plain_card sample_flight)
       \<lparr>own_button :=
          Some \<lparr>has_button_text = True,
                button = \<lparr>trigger_visible = True, trigger_disabled = False\<rparr>\<rparr>,
        extractFareDetailsFromPopup := Inl Thrown\<rparr>"

definition details_failing_card :: card where
  "details_failing_card =
     (plain_card sample_flight)
       \<lparr>own_details_link := Some \<lparr>says_view_flight_details = True, link_visible = True\<rparr>,
        waitForFlightDetailsOuter := Inl Thrown,
        findHideFlightDetailsLink_in_catch := Inr True\<rparr>"

text \<open>
  Sample cards: one that has no "View Prices" button of its own while the first such
  button under its parent element, a sibling's, is usable; and one whose own button is
  disabled and that is read while a fare popup is open, so that
  \<^verbatim>\<open>extractFlightFromCard\<close> has filled \<open>fare_options\<close>.
\<close>

definition sibling_button_card :: card where
  "sibling_button_card =
     (plain_card sample_flight)
       \<lparr>parent_button :=
          Some \<lparr>has_button_text = True,
                button = \<lparr>trigger_visible = True, trigger_disabled = False\<rparr>\<rparr>,
        extractFareDetailsFromPopup := Inr (Some (Payload ''fares of the popup opened''))\<rparr>"

definition stale_popup_card :: card where
  "stale_popup_card =
     disabled_trigger_card
       \<lparr>extractFlightFromCard :=
          Inr (sample_flight\<lparr>fare_options := Some (Payload ''fares of the popup left open'')\<rparr>)\<rparr>"

definition sample_page :: page where
  "sample_page =
     \<lparr>intlParam = Some ''false'', detectTripTypeFromUI = Inr ''one_way'', splitView = None,
      listingCards = 2,
      uncheckNonStopFilter = Inr (), clickAllOptionsAvailableLinks = Inr (),
      clickMoreFlightsLink = Inr (),
      findFlightCards = Inr duplicate_cards, findFlightCardsFallback = Inr [],
      cards_before_extraction = 2, cards_after_wait = 2\<rparr>"

text \<open>
  A page that the toggle reads as a round trip but that has no split view; a batch of one
  route and two dates at its first job; the same batch with a single date; and the
  parameters of its first job.
\<close>

definition no_split_view_page :: page where
  "no_split_view_page = sample_page\<lparr>detectTripTypeFromUI := Inr ''round_trip''\<rparr>"

definition sample_batch :: batch_state where
  "sample_batch =
     \<lparr>routes = [\<lparr>source = ''BLR'', dest = ''PAT''\<rparr>], dateOffsets = [1, 7],
      currentRouteIndex = 0, currentDateIndex = 0\<rparr>"

definition sample_browser :: browser where
  "sample_browser =
     \<lparr>remainingRoutes = Some sample_batch, pendingExtraction = None, messages = [],
      location = None, autoExtractMode = True, clock = 1793664000000\<rparr>"

definition single_job_browser :: browser where
  "single_job_browser =
     sample_browser\<lparr>remainingRoutes := Some (sample_batch\<lparr>dateOffsets := [1]\<rparr>)\<rparr>"

definition sample_params :: extraction_params where
  "sample_params = \<lparr>sourceCode = ''BLR'', destCode = ''PAT'', daysOffset = Some 1\<rparr>"

text \<open>
  A round-trip page with one pane of \<open>n\<close> cards. The listing shows no flight code; the
  details panel supplies it. The cards differ in the departure time they show, which is
  the card's number. \<open>listed_flight\<close> is the record of card \<open>n\<close> once its details are
  merged, \<open>numbered_keys\<close> the three strings it leaves in the seen-set, and
  \<open>crowded_state\<close> the loop state after the first \<open>n\<close> cards.
\<close>

definition numbered_flight :: "nat \<Rightarrow> flight" where
  "numbered_flight n = sample_flight\<lparr>flight_code := None, departure_time := Some (show_nat n)\<rparr>"

definition numbered_rt_card :: "nat \<Rightarrow> rt_card" where
  "numbered_rt_card n =
     \<lparr>rt_group_placeholder = False, rt_in_collapsed_group = False,
      rt_has_time = True, rt_has_price = True, rt_visible = True,
      rt_data_test = None, rt_id = None, rt_text = ''IndiGo'',
      rt_extractFlightFromCard = Inr (numbered_flight n),
      rt_findFlightDetailsLink = Inr True,
      rt_extractDetailedFlightInfoFromAllTabs =
        Inr (Some \<lparr>info_payload = Payload ''segments'',
                    first_segment =
                      Some \<lparr>airline_name = Some ''IndiGo'',
                            full_flight_code = Some ''6E 2124'',
                            segment_airline_code = Some ''6E''\<rparr>\<rparr>)\<rparr>"

definition listed_flight :: "nat \<Rightarrow> flight" where
  "listed_flight n =
     (numbered_flight n)\<lparr>index := n, direction := Some ''outbound'',
                          flight_details := Some (Payload ''segments''),
                          flight_code := Some ''6E 2124''\<rparr>"

definition crowded_pane :: "nat \<Rightarrow> pane" where
  "crowded_pane n =
     \<lparr>validation_cards = n, dateText = None,
      clickOptionsAvailableLinksInPane = Inr (), scrollHeight = 1200, clientHeight = 600,
      paneCards = map numbered_rt_card [0..<n], allCardsNow = map numbered_rt_card [0..<n]\<rparr>"

definition crowded_page :: "nat \<Rightarrow> page" where
  "crowded_page n =
     \<lparr>intlParam = Some ''false'', detectTripTypeFromUI = Inr ''round_trip'',
      splitView = Some [crowded_pane n],
      listingCards = n,
      uncheckNonStopFilter = Inr (), clickAllOptionsAvailableLinks = Inr (),
      clickMoreFlightsLink = Inr (),
      findFlightCards = Inr [], findFlightCardsFallback = Inr [],
      cards_before_extraction = n, cards_after_wait = n\<rparr>"

definition numbered_keys :: "nat \<Rightarrow> string set" where
  "numbered_keys n =
     {''outbound_6E_'' @ show_nat n @ ''_08:45_Bengaluru_Patna'',
      ''outbound_6E 2124_'' @ show_nat n @ ''_08:45'',
      ''outbound-IndiGo-'' @ show_nat n @ ''-08:45''}"

definition crowded_state :: "nat \<Rightarrow> rt_state" where
  "crowded_state n =
     \<lparr>rt_flights = map listed_flight [0..<n],
      rt_seen = (\<Union>j \<in> {..<n}. numbered_keys j),
      rt_processed = (\<lambda>j. show_nat j @ ''-IndiGo'') ` {..<n}\<rparr>"

section \<open>Verified properties\<close>

subsection \<open>The deduplicator\<close>

lemma generateFlightKey_priority_fields:
  "generateFlightKey f = with_direction f (underscore_join (priority_fields f))"
  by (simp add: generateFlightKey_def priority_fields_def)

lemma priority_fields_cong:
  "same_identity_fields f g \<Longrightarrow> priority_fields f = priority_fields g"
  by (simp add: same_identity_fields_def priority_fields_def)

text \<open>
  Claim C1, as the code has it. The key is the underscore-joined list of identity fields
  in priority order (flight code with the two times; else carrier code with times and
  cities; else the carrier name with times, cities and date), prefixed by the record's
  direction marker when it has one. Two records that agree on all those fields and on the
  direction marker receive equal keys.
\<close>

theorem generateFlightKey_identity:
  assumes "same_identity_fields f g" and "direction f = direction g"
  shows "generateFlightKey f = with_direction f (underscore_join (priority_fields f))
         \<and> generateFlightKey f = generateFlightKey g"
proof -
  have pf: "priority_fields f = priority_fields g"
    using assms(1) by (rule priority_fields_cong)
  have wd: "with_direction f k = with_direction g k" for k
    using assms(2) by (simp add: with_direction_def)
  show ?thesis
    by (simp add: generateFlightKey_priority_fields pf wd)
qed

theorem generateFlightKey_identity_witness:
  "same_identity_fields sample_outbound (sample_outbound\<lparr>index := 7, price := None\<rparr>)
   \<and> direction sample_outbound = direction (sample_outbound\<lparr>index := 7, price := None\<rparr>)
   \<and> generateFlightKey sample_outbound = ''outbound_6E 2124_06:15_08:45''
   \<and> generateFlightKey (sample_outbound\<lparr>index := 7, price := None\<rparr>)
       = ''outbound_6E 2124_06:15_08:45''"
proof -
  have a: "same_identity_fields sample_outbound (sample_outbound\<lparr>index := 7, price := None\<rparr>)"
    by (simp add: same_identity_fields_def)
  have b: "direction sample_outbound = direction (sample_outbound\<lparr>index := 7, price := None\<rparr>)"
    by simp
  have k: "with_direction sample_outbound (underscore_join (priority_fields sample_outbound))
           = ''outbound_6E 2124_06:15_08:45''"
    by (simp add: with_direction_def priority_fields_def sample_outbound_def sample_flight_def
        truthy_def or_empty_def)
  note t = generateFlightKey_identity [OF a b]
  have e: "generateFlightKey sample_outbound
           = generateFlightKey (sample_outbound\<lparr>index := 7, price := None\<rparr>)"
    using t by blast
  have k1: "generateFlightKey sample_outbound = ''outbound_6E 2124_06:15_08:45''"
    using t k by simp
  have k2: "generateFlightKey (sample_outbound\<lparr>index := 7, price := None\<rparr>)
            = ''outbound_6E 2124_06:15_08:45''"
    using e k1 by simp
  show ?thesis
    using a b k1 k2 by blast
qed

text \<open>
  Claim C1 as the spec words it leaves the direction marker out: records that agree on
  every named field would always share a key. The outbound and the return listing of one
  flight agree on all of them and get different keys.
\<close>

theorem generateFlightKey_direction_counterexample:
  "same_identity_fields sample_outbound sample_return
   \<and> generateFlightKey sample_outbound \<noteq> generateFlightKey sample_return"
  by (simp add: same_identity_fields_def generateFlightKey_def with_direction_def
      sample_outbound_def sample_return_def sample_flight_def truthy_def or_empty_def)

lemma check_all_keys: "check_all rs s = s \<union> generateFlightKey ` set rs"
  by (induction rs arbitrary: s) (auto simp: isDuplicateFlight_def)

text \<open>
  Claim C2. A record whose key is not yet in the set is reported as new and its key is
  inserted; checking the same record again reports a duplicate and leaves the set as it
  is. Whatever sequence of records is checked, the set holds its initial keys and the
  keys of those records and nothing else, so starting from the empty set its size is the
  number of distinct keys.
\<close>

theorem isDuplicateFlight_idempotent:
  assumes "generateFlightKey r \<notin> s"
  shows "isDuplicateFlight (Some r) s = (False, insert (generateFlightKey r) s)
         \<and> isDuplicateFlight (Some r) (snd (isDuplicateFlight (Some r) s))
             = (True, snd (isDuplicateFlight (Some r) s))
         \<and> check_all rs s = s \<union> generateFlightKey ` set rs
         \<and> card (check_all rs {}) = length (remdups (map generateFlightKey rs))"
proof -
  have "card (check_all rs {}) = card (set (map generateFlightKey rs))"
    by (simp add: check_all_keys)
  then have "card (check_all rs {}) = length (remdups (map generateFlightKey rs))"
    by (simp only: List.card_set)
  with assms show ?thesis
    by (simp add: isDuplicateFlight_def check_all_keys)
qed

theorem isDuplicateFlight_idempotent_witness:
  "generateFlightKey sample_flight \<notin> {}
   \<and> isDuplicateFlight (Some sample_flight) {} = (False, {''6E 2124_06:15_08:45''})
   \<and> isDuplicateFlight (Some sample_flight) {''6E 2124_06:15_08:45''}
       = (True, {''6E 2124_06:15_08:45''})
   \<and> card (check_all [sample_flight, sample_flight, sample_flight] {}) = 1"
proof -
  have k: "generateFlightKey sample_flight = ''6E 2124_06:15_08:45''"
    by (simp add: generateFlightKey_def with_direction_def sample_flight_def truthy_def
        or_empty_def)
  have h: "generateFlightKey sample_flight \<notin> {}"
    by simp
  note t = isDuplicateFlight_idempotent [OF h, of "[sample_flight, sample_flight, sample_flight]"]
  have t1: "isDuplicateFlight (Some sample_flight) {} = (False, {''6E 2124_06:15_08:45''})"
    using t [THEN conjunct1] unfolding k .
  have t2: "isDuplicateFlight (Some sample_flight) {''6E 2124_06:15_08:45''}
            = (True, {''6E 2124_06:15_08:45''})"
    using t [THEN conjunct2, THEN conjunct1] unfolding t1 snd_conv .
  have "card (check_all [sample_flight, sample_flight, sample_flight] {})
        = length (remdups (map generateFlightKey [sample_flight, sample_flight, sample_flight]))"
    using t [THEN conjunct2, THEN conjunct2, THEN conjunct2] .
  then have t3: "card (check_all [sample_flight, sample_flight, sample_flight] {}) = 1"
    by (simp add: k)
  show ?thesis
    using h t1 t2 t3 by blast
qed

text \<open>
  Claim C10. A \<open>null\<close> or \<open>undefined\<close> record is reported as a duplicate whatever the
  set holds, and the set is left unchanged.
\<close>

theorem isDuplicateFlight_null:
  "isDuplicateFlight None s = (True, s)"
  by (simp add: isDuplicateFlight_def)

subsection \<open>The card loop\<close>

lemma key_fare_options [simp]:
  "generateFlightKey (f\<lparr>fare_options := x\<rparr>) = generateFlightKey f"
  by (simp add: generateFlightKey_def with_direction_def)

lemma key_flight_details [simp]:
  "generateFlightKey (f\<lparr>flight_details := x\<rparr>) = generateFlightKey f"
  by (simp add: generateFlightKey_def with_direction_def)

lemma popup_branch_record:
  "popup_branch i c f = (Inr f1, evs) \<Longrightarrow> f1 = f \<or> (\<exists>x. f1 = f\<lparr>fare_options := x\<rparr>)"
  by (auto simp: popup_branch_def Let_def split: sum.splits bool.splits if_splits option.splits)

lemma details_try_record:
  "details_try i c f = (r, f2, evs) \<Longrightarrow> f2 = f \<or> (\<exists>x. f2 = f\<lparr>flight_details := x\<rparr>)"
  by (auto simp: details_try_def Let_def split: sum.splits bool.splits if_splits option.splits)

lemma details_branch_record:
  "details_branch i c f = (f2, evs) \<Longrightarrow> f2 = f \<or> (\<exists>x. f2 = f\<lparr>flight_details := x\<rparr>)"
  by (auto simp: details_branch_def split: prod.splits sum.splits dest: details_try_record)

lemma popup_branch_events:
  "popup_branch i c f = (r, evs) \<Longrightarrow> set evs \<subseteq> {ClickViewPrices i, ClosePopup i}"
  by (auto simp: popup_branch_def Let_def split: sum.splits bool.splits if_splits)

lemma details_branch_events:
  "details_branch i c f = (f2, evs) \<Longrightarrow>
   set evs \<subseteq> {ClickViewFlightDetails i, ClickHideFlightDetails i, ClickCloseButton i, LogDetailsError i}"
  by (auto simp: details_branch_def details_try_def Let_def
           split: prod.splits sum.splits bool.splits if_splits option.splits)

lemma summary_fields_fare [simp]: "summary_fields (f\<lparr>fare_options := x\<rparr>) = summary_fields f"
  by (simp add: summary_fields_def)

lemma summary_fields_details [simp]: "summary_fields (f\<lparr>flight_details := x\<rparr>) = summary_fields f"
  by (simp add: summary_fields_def)


lemma card_try_no_summary:
  "summary i c = None \<Longrightarrow> card_try i c st = (Inr (), st) \<or> card_try i c st = (Inl Thrown, st)"
  by (cases "extractFlightFromCard c")
     (auto simp: summary_def card_try_def Let_def split: if_splits intro: exn.exhaust)

lemma card_try_duplicate:
  "summary i c = Some f \<Longrightarrow> generateFlightKey f \<in> ls_seen st \<Longrightarrow> card_try i c st = (Inr (), st)"
  by (cases "extractFlightFromCard c")
     (auto simp: summary_def card_try_def Let_def isDuplicateFlight_def split: if_splits)

lemma card_try_new:
  assumes "summary i c = Some f" and "generateFlightKey f \<notin> ls_seen st"
  shows "(\<exists>e evs. card_try i c st
            = (Inl e, st\<lparr>ls_seen := insert (generateFlightKey f) (ls_seen st),
                         ls_events := ls_events st @ evs\<rparr>)
            \<and> (\<forall>j. LogCardError j \<notin> set evs))
         \<or> (\<exists>f2 evs. card_try i c st
            = (Inr (), st\<lparr>ls_flights := ls_flights st @ [f2],
                           ls_seen := insert (generateFlightKey f) (ls_seen st),
                           ls_events := ls_events st @ evs\<rparr>)
            \<and> summary_fields f2 = summary_fields f
            \<and> (\<forall>j. LogCardError j \<notin> set evs))"
proof -
  from assms(1) obtain f0 where f0: "extractFlightFromCard c = Inr f0"
    and f: "f = f0\<lparr>index := i\<rparr>" and v: "isValidFlight (f0\<lparr>index := i\<rparr>)"
    by (auto simp: summary_def split: sum.splits if_splits)
  have dup: "isDuplicateFlight (Some (f0\<lparr>index := i\<rparr>)) (ls_seen st)
             = (False, insert (generateFlightKey f) (ls_seen st))"
    using assms(2) unfolding f by (simp add: isDuplicateFlight_def)
  have ct: "card_try i c st =
     (case findViewPricesButtonForCard c of
        Inl e \<Rightarrow> (Inl e, st\<lparr>ls_seen := insert (generateFlightKey f) (ls_seen st)\<rparr>)
      | Inr viewPricesButton \<Rightarrow>
          (case (if popup_guard viewPricesButton then popup_branch i c f else (Inr f, [])) of
             (Inl e, evs) \<Rightarrow>
               (Inl e, st\<lparr>ls_seen := insert (generateFlightKey f) (ls_seen st),
                           ls_events := ls_events st @ evs\<rparr>)
           | (Inr f1, evs) \<Rightarrow>
               (case findViewFlightDetailsLinkForCard c of
                  Inl e \<Rightarrow>
                    (Inl e, st\<lparr>ls_seen := insert (generateFlightKey f) (ls_seen st),
                                ls_events := ls_events st @ evs\<rparr>)
                | Inr viewFlightDetailsLink \<Rightarrow>
                    (case (if viewFlightDetailsLink = Some True
                           then details_branch i c f1 else (f1, [])) of
                       (f2, evs2) \<Rightarrow>
                         (Inr (),
                          st\<lparr>ls_flights := ls_flights st @ [f2],
                             ls_seen := insert (generateFlightKey f) (ls_seen st),
                             ls_events := ls_events st @ evs @ evs2\<rparr>)))))"
    using f0 v dup unfolding f by (simp add: card_try_def Let_def split del: if_split)
  show ?thesis
  proof (cases "findViewPricesButtonForCard c")
    case (Inl e)
    then have "card_try i c st
               = (Inl e, st\<lparr>ls_seen := insert (generateFlightKey f) (ls_seen st),
                            ls_events := ls_events st @ []\<rparr>)"
      by (simp add: ct)
    then show ?thesis by (metis empty_iff empty_set)
  next
    case (Inr b)
    obtain r1 evs where pb:
      "(if popup_guard b then popup_branch i c f else (Inr f, [])) = (r1, evs)"
      by (cases "if popup_guard b then popup_branch i c f else (Inr f, [])") auto
    have evs: "\<forall>j. LogCardError j \<notin> set evs"
      using pb popup_branch_events [of i c f r1 evs] by (auto split: if_splits)
    show ?thesis
    proof (cases r1)
      case (Inl e)
      then have "card_try i c st
               = (Inl e, st\<lparr>ls_seen := insert (generateFlightKey f) (ls_seen st),
                            ls_events := ls_events st @ evs\<rparr>)"
        by (simp add: ct Inr pb split del: if_split)
      then show ?thesis using evs by blast
    next
      case r1: (Inr f1)
      have f1: "summary_fields f1 = summary_fields f"
        using pb r1 popup_branch_record [of i c f f1 evs] by (auto split: if_splits)
      show ?thesis
      proof (cases "findViewFlightDetailsLinkForCard c")
        case (Inl e)
        then have "card_try i c st
               = (Inl e, st\<lparr>ls_seen := insert (generateFlightKey f) (ls_seen st),
                            ls_events := ls_events st @ evs\<rparr>)"
          by (simp add: ct Inr pb r1 split del: if_split)
        then show ?thesis using evs by blast
      next
        case l: (Inr l)
        obtain f2 evs2 where db:
          "(if l = Some True then details_branch i c f1 else (f1, [])) = (f2, evs2)"
          by (cases "if l = Some True then details_branch i c f1 else (f1, [])") auto
        have f2: "summary_fields f2 = summary_fields f"
          using db f1 details_branch_record [of i c f1 f2 evs2] by (auto split: if_splits)
        have evs2: "\<forall>j. LogCardError j \<notin> set evs2"
          using db details_branch_events [of i c f1 f2 evs2] by (auto split: if_splits)
        have "card_try i c st
               = (Inr (), st\<lparr>ls_flights := ls_flights st @ [f2],
                           ls_seen := insert (generateFlightKey f) (ls_seen st),
                           ls_events := ls_events st @ (evs @ evs2)\<rparr>)"
          by (simp add: ct Inr pb r1 l db split del: if_split)
        moreover have "\<forall>j. LogCardError j \<notin> set (evs @ evs2)"
          using evs evs2 by simp
        ultimately show ?thesis using f2 by blast
      qed
    qed
  qed
qed

lemma process_card_no_summary:
  assumes "summary i c = None"
  shows "ls_flights (process_card i c st) = ls_flights st
         \<and> ls_seen (process_card i c st) = ls_seen st
         \<and> set (ls_events st) \<subseteq> set (ls_events (process_card i c st))"
  using card_try_no_summary [OF assms, of st] by (auto simp: process_card_def)

lemma process_card_duplicate:
  "summary i c = Some f \<Longrightarrow> generateFlightKey f \<in> ls_seen st \<Longrightarrow> process_card i c st = st"
  by (simp add: process_card_def card_try_duplicate)

lemma process_card_new:
  assumes "summary i c = Some f" and "generateFlightKey f \<notin> ls_seen st"
  shows "ls_seen (process_card i c st) = insert (generateFlightKey f) (ls_seen st)
         \<and> set (ls_events st) \<subseteq> set (ls_events (process_card i c st))
         \<and> ((ls_flights (process_card i c st) = ls_flights st
              \<and> LogCardError i \<in> set (ls_events (process_card i c st)))
            \<or> (\<exists>f2. ls_flights (process_card i c st) = ls_flights st @ [f2]
                    \<and> summary_fields f2 = summary_fields f))"
  using card_try_new [OF assms] by (auto simp: process_card_def)

























lemmas card_defs = process_card_def card_try_def summary_def isValidFlight_def isDuplicateFlight_def
  generateFlightKey_def with_direction_def truthy_def or_empty_def popup_guard_def
  initial_state_def plain_card_def sample_flight_def summary_fields_def
  findViewPricesButtonForCard_def found_button_def labelled_def
  findViewFlightDetailsLinkForCard_def found_details_link_def titled_def

lemma duplicate_cards_run:
  "process_cards 0 duplicate_cards initial_state
   = \<lparr>ls_flights = [sample_flight], ls_seen = {''6E 2124_06:15_08:45''}, ls_events = []\<rparr>"
  by (simp add: duplicate_cards_def card_defs)

lemmas page_defs = sample_page_def no_split_view_page_def resolve_trip_type_def
  validateDomesticTripStructure_def truthy_def or_empty_def

lemma sample_page_run:
  "extractFlightsSequentially None sample_page
   = Some (Inr (flights_result ''one_way'' [sample_flight]))"
proof -
  have v: "visibleCards duplicate_cards = duplicate_cards"
    by (simp add: visibleCards_def validCards_def maxFlights_def duplicate_cards_def
        plain_card_def)
  have n: "length duplicate_cards \<noteq> 0"
    by (simp add: duplicate_cards_def)
  show ?thesis
    using n
    by (simp add: extractFlightsSequentially_def sequential_try_def one_way_cards_def page_defs
        v duplicate_cards_run)
qed



lemma card_try_after_dedupe:
  assumes "summary i c = Some f" and "generateFlightKey f \<notin> ls_seen st"
  shows "card_try i c st =
     (case findViewPricesButtonForCard c of
        Inl e \<Rightarrow> (Inl e, st\<lparr>ls_seen := insert (generateFlightKey f) (ls_seen st)\<rparr>)
      | Inr viewPricesButton \<Rightarrow>
          (case (if popup_guard viewPricesButton then popup_branch i c f else (Inr f, [])) of
             (Inl e, evs) \<Rightarrow>
               (Inl e, st\<lparr>ls_seen := insert (generateFlightKey f) (ls_seen st),
                           ls_events := ls_events st @ evs\<rparr>)
           | (Inr f1, evs) \<Rightarrow>
               (case findViewFlightDetailsLinkForCard c of
                  Inl e \<Rightarrow>
                    (Inl e, st\<lparr>ls_seen := insert (generateFlightKey f) (ls_seen st),
                                ls_events := ls_events st @ evs\<rparr>)
                | Inr viewFlightDetailsLink \<Rightarrow>
                    (case (if viewFlightDetailsLink = Some True
                           then details_branch i c f1 else (f1, [])) of
                       (f2, evs2) \<Rightarrow>
                         (Inr (),
                          st\<lparr>ls_flights := ls_flights st @ [f2],
                             ls_seen := insert (generateFlightKey f) (ls_seen st),
                             ls_events := ls_events st @ evs @ evs2\<rparr>)))))"
proof -
  from assms(1) obtain f0 where f0: "extractFlightFromCard c = Inr f0"
    and f: "f = f0\<lparr>index := i\<rparr>" and v: "isValidFlight (f0\<lparr>index := i\<rparr>)"
    by (auto simp: summary_def split: sum.splits if_splits)
  have dup: "isDuplicateFlight (Some (f0\<lparr>index := i\<rparr>)) (ls_seen st)
             = (False, insert (generateFlightKey f) (ls_seen st))"
    using assms(2) unfolding f by (simp add: isDuplicateFlight_def)
  show ?thesis
    using f0 v dup unfolding f by (simp add: card_try_def Let_def split del: if_split)
qed

lemma card_try_throw_flights:
  assumes "card_try i c st = (Inl e, st1)"
  shows "ls_flights st1 = ls_flights st"
proof (cases "summary i c")
  case None
  then show ?thesis using card_try_no_summary [of i c st] assms by auto
next
  case (Some f)
  show ?thesis
  proof (cases "generateFlightKey f \<in> ls_seen st")
    case True
    then show ?thesis using card_try_duplicate [OF Some True] assms by simp
  next
    case False
    then show ?thesis using card_try_new [OF Some False] assms by auto
  qed
qed

lemma extractFlightsSequentially_never_throws:
  "extractFlightsSequentially tt pg \<noteq> Some (Inl e)"
  by (simp add: extractFlightsSequentially_def split: option.splits sum.splits)

lemma one_way_returns:
  assumes "resolve_trip_type tt pg = Inr t" and "t \<noteq> ''round_trip''"
  shows "\<exists>r. extractFlightsSequentially tt pg = Some (Inr r)"
proof -
  have "sequential_try tt pg \<noteq> None"
    using assms by (simp add: sequential_try_def split: sum.splits)
  then show ?thesis
    by (auto simp: extractFlightsSequentially_def split: option.splits sum.splits)
qed

text \<open>
  Claim C6, as the code has it. Whatever happens to a card, the loop goes on with the next
  one, and \<open>extractFlightsSequentially\<close> never throws; for a one-way page it always
  returns a payload. An exception that leaves the card's \<^verbatim>\<open>try\<close> block is logged and
  the card contributes no record. An exception inside the details step is caught by that
  step's own handler: it is logged, the driver clicks "Hide Flight Details" when it finds
  the link, and the card's record is still appended.
\<close>

theorem card_exceptions_are_contained:
  "process_cards i (c # cs) st = process_cards (Suc i) cs (process_card i c st)
   \<and> (\<forall>e st1. card_try i c st = (Inl e, st1) \<longrightarrow>
         ls_flights (process_card i c st) = ls_flights st
         \<and> ls_events (process_card i c st) = ls_events st1 @ [LogCardError i])
   \<and> (\<forall>f b f1 evs e f2 evs2.
         summary i c = Some f \<and> generateFlightKey f \<notin> ls_seen st
         \<and> findViewPricesButtonForCard c = Inr b
         \<and> (if popup_guard b then popup_branch i c f else (Inr f, [])) = (Inr f1, evs)
         \<and> findViewFlightDetailsLinkForCard c = Inr (Some True)
         \<and> details_try i c f1 = (Inl e, f2, evs2) \<longrightarrow>
         ls_flights (process_card i c st) = ls_flights st @ [f2]
         \<and> ls_events (process_card i c st)
             = ls_events st @ evs @ evs2 @ [LogDetailsError i]
               @ (if findHideFlightDetailsLink_in_catch c = Inr True
                  then [ClickHideFlightDetails i] else []))
   \<and> (\<forall>tt pg e. extractFlightsSequentially tt pg \<noteq> Some (Inl e))
   \<and> (\<forall>tt pg t. resolve_trip_type tt pg = Inr t \<and> t \<noteq> ''round_trip''
         \<longrightarrow> (\<exists>r. extractFlightsSequentially tt pg = Some (Inr r)))"
proof (intro conjI allI impI)
  show "process_cards i (c # cs) st = process_cards (Suc i) cs (process_card i c st)"
    by simp
next
  fix e st1
  assume a: "card_try i c st = (Inl e, st1)"
  then show "ls_flights (process_card i c st) = ls_flights st"
    using card_try_throw_flights [OF a] by (simp add: process_card_def)
  from a show "ls_events (process_card i c st) = ls_events st1 @ [LogCardError i]"
    by (simp add: process_card_def)
next
  fix f b f1 evs e f2 evs2
  assume a: "summary i c = Some f \<and> generateFlightKey f \<notin> ls_seen st
         \<and> findViewPricesButtonForCard c = Inr b
         \<and> (if popup_guard b then popup_branch i c f else (Inr f, [])) = (Inr f1, evs)
         \<and> findViewFlightDetailsLinkForCard c = Inr (Some True)
         \<and> details_try i c f1 = (Inl e, f2, evs2)"
  then have db: "details_branch i c f1
                 = (f2, evs2 @ [LogDetailsError i]
                         @ (if findHideFlightDetailsLink_in_catch c = Inr True
                            then [ClickHideFlightDetails i] else []))"
    by (auto simp: details_branch_def split: sum.splits bool.splits)
  have ct: "card_try i c st
            = (Inr (), st\<lparr>ls_flights := ls_flights st @ [f2],
                 ls_seen := insert (generateFlightKey f) (ls_seen st),
                 ls_events := ls_events st @ evs @ evs2 @ [LogDetailsError i]
                   @ (if findHideFlightDetailsLink_in_catch c = Inr True
                      then [ClickHideFlightDetails i] else [])\<rparr>)"
    using a db by (simp add: card_try_after_dedupe split del: if_split)
  show "ls_flights (process_card i c st) = ls_flights st @ [f2]"
    by (simp add: process_card_def ct)
  show "ls_events (process_card i c st)
             = ls_events st @ evs @ evs2 @ [LogDetailsError i]
               @ (if findHideFlightDetailsLink_in_catch c = Inr True
                  then [ClickHideFlightDetails i] else [])"
    by (simp add: process_card_def ct)
next
  fix tt pg e
  show "extractFlightsSequentially tt pg \<noteq> Some (Inl e)"
    by (rule extractFlightsSequentially_never_throws)
next
  fix tt pg t
  assume "resolve_trip_type tt pg = Inr t \<and> t \<noteq> ''round_trip''"
  then show "\<exists>r. extractFlightsSequentially tt pg = Some (Inr r)"
    using one_way_returns by blast
qed

text \<open>
  The two lookups of the card loop only query the DOM and always return.
\<close>

lemma findViewPricesButtonForCard_returns:
  "findViewPricesButtonForCard c \<noteq> Inl e"
  by (simp add: findViewPricesButtonForCard_def)

lemma findViewFlightDetailsLinkForCard_returns:
  "findViewFlightDetailsLinkForCard c \<noteq> Inl e"
  by (simp add: findViewFlightDetailsLinkForCard_def)

text \<open>
  \<^verbatim>\<open>findViewPricesButtonForCard\<close> finds nothing exactly when neither the card's own
  button nor the first button under its parent carries the button text.
\<close>

lemma found_button_none:
  "found_button c = None
   \<longleftrightarrow> (own_button c = None \<or> (\<exists>fb. own_button c = Some fb \<and> \<not> has_button_text fb))
       \<and> (parent_button c = None
            \<or> (\<exists>fb. parent_button c = Some fb \<and> \<not> has_button_text fb))"
  by (auto simp: found_button_def labelled_def split: option.splits if_splits)

text \<open>
  Claim C7, as the code has it. Take a card whose summary is valid and new and for which
  \<^verbatim>\<open>findViewPricesButtonForCard\<close> finds no button, neither in the card nor under
  its parent element, or finds one that is invisible or disabled. The loop appends one
  record for it. Apart from what the details panel may add, the record is the one
  \<^verbatim>\<open>extractFlightFromCard\<close> returned, with the card's index; its fare options are
  those that \<^verbatim>\<open>extractFlightFromCard\<close> put there, present or not; and the driver
  neither clicked "View Prices" nor tried to close a popup nor logged an error for the
  card.
\<close>

theorem missing_fare_trigger_gives_summary_record:
  assumes "extractFlightFromCard c = Inr f0"
      and "isValidFlight (f0\<lparr>index := i\<rparr>)"
      and "generateFlightKey (f0\<lparr>index := i\<rparr>) \<notin> ls_seen st"
      and "found_button c = None
           \<or> (\<exists>t. found_button c = Some t \<and> (\<not> trigger_visible t \<or> trigger_disabled t))"
  shows "\<exists>f evs. ls_flights (process_card i c st) = ls_flights st @ [f]
           \<and> f\<lparr>flight_details := flight_details f0\<rparr> = f0\<lparr>index := i\<rparr>
           \<and> fare_options f = fare_options f0
           \<and> ls_events (process_card i c st) = ls_events st @ evs
           \<and> set evs \<inter> {ClickViewPrices i, ClosePopup i, LogCardError i} = {}"
proof -
  let ?f = "f0\<lparr>index := i\<rparr>"
  let ?l = "found_details_link c"
  have s: "summary i c = Some ?f"
    using assms(1,2) by (simp add: summary_def)
  have b: "findViewPricesButtonForCard c = Inr (found_button c)"
    by (simp add: findViewPricesButtonForCard_def)
  have l: "findViewFlightDetailsLinkForCard c = Inr ?l"
    by (simp add: findViewFlightDetailsLinkForCard_def)
  have ng: "\<not> popup_guard (found_button c)"
    using assms(4) by (auto simp: popup_guard_def)
  obtain f2 evs2 where db:
    "(if ?l = Some True then details_branch i c ?f else (?f, [])) = (f2, evs2)"
    by (cases "if ?l = Some True then details_branch i c ?f else (?f, [])") auto
  have ct: "card_try i c st
            = (Inr (), st\<lparr>ls_flights := ls_flights st @ [f2],
                 ls_seen := insert (generateFlightKey ?f) (ls_seen st),
                 ls_events := ls_events st @ evs2\<rparr>)"
    using b l ng db
    by (simp add: card_try_after_dedupe [OF s assms(3)] split del: if_split)
  have rec: "f2 = ?f \<or> (\<exists>x. f2 = ?f\<lparr>flight_details := x\<rparr>)"
    using db details_branch_record [of i c ?f f2 evs2] by (auto split: if_splits)
  have ev: "set evs2 \<subseteq> {ClickViewFlightDetails i, ClickHideFlightDetails i,
                          ClickCloseButton i, LogDetailsError i}"
    using db details_branch_events [of i c ?f f2 evs2] by (auto split: if_splits)
  have "f2\<lparr>flight_details := flight_details f0\<rparr> = ?f" and "fare_options f2 = fare_options f0"
    using rec by auto
  moreover have "set evs2 \<inter> {ClickViewPrices i, ClosePopup i, LogCardError i} = {}"
    using ev by auto
  ultimately show ?thesis
    by (intro exI [of _ f2] exI [of _ evs2]) (simp add: process_card_def ct)
qed

lemmas sample_card_defs = disabled_trigger_card_def popup_failing_card_def details_failing_card_def
  sibling_button_card_def stale_popup_card_def popup_branch_def details_branch_def details_try_def

text \<open>
  Claim C6 as the spec words it says that a card whose processing raised an exception
  contributes no record. Here the details step throws, the error is logged, and the
  card's record is in the result all the same.
\<close>

theorem details_exception_keeps_record_counterexample:
  "fst (details_try 0 details_failing_card sample_flight) = Inl Thrown
   \<and> LogDetailsError 0 \<in> set (ls_events (process_card 0 details_failing_card initial_state))
   \<and> ls_flights (process_card 0 details_failing_card initial_state) = [sample_flight]"
  by (simp add: card_defs sample_card_defs)

theorem missing_fare_trigger_gives_summary_record_witness:
  "extractFlightFromCard disabled_trigger_card = Inr sample_flight
   \<and> isValidFlight (sample_flight\<lparr>index := 0\<rparr>)
   \<and> generateFlightKey (sample_flight\<lparr>index := 0\<rparr>) \<notin> ls_seen initial_state
   \<and> found_button disabled_trigger_card
       = Some \<lparr>trigger_visible = True, trigger_disabled = True\<rparr>
   \<and> (\<exists>f evs. ls_flights (process_card 0 disabled_trigger_card initial_state)
                 = ls_flights initial_state @ [f]
           \<and> f\<lparr>flight_details := flight_details sample_flight\<rparr> = sample_flight\<lparr>index := 0\<rparr>
           \<and> fare_options f = fare_options sample_flight
           \<and> ls_events (process_card 0 disabled_trigger_card initial_state)
               = ls_events initial_state @ evs
           \<and> set evs \<inter> {ClickViewPrices 0, ClosePopup 0, LogCardError 0} = {})"
proof -
  have h1: "extractFlightFromCard disabled_trigger_card = Inr sample_flight"
    by (simp add: disabled_trigger_card_def plain_card_def)
  have h2: "isValidFlight (sample_flight\<lparr>index := 0\<rparr>)"
    by (simp add: card_defs)
  have h3: "generateFlightKey (sample_flight\<lparr>index := 0\<rparr>) \<notin> ls_seen initial_state"
    by (simp add: initial_state_def)
  have h4: "found_button disabled_trigger_card
            = Some \<lparr>trigger_visible = True, trigger_disabled = True\<rparr>"
    by (simp add: card_defs disabled_trigger_card_def)
  have h5: "found_button disabled_trigger_card = None
            \<or> (\<exists>t. found_button disabled_trigger_card = Some t
                    \<and> (\<not> trigger_visible t \<or> trigger_disabled t))"
    by (simp add: h4)
  note t = missing_fare_trigger_gives_summary_record [OF h1 h2 h3 h5]
  show ?thesis
    by (intro conjI h1 h2 h3 h4 t)
qed

text \<open>
  Claim C7 as the spec words it fails in two ways. A card that has no "View Prices"
  button is not spared the popup branch: the lookup falls back to the first button under
  the card's parent element, the driver clicks that one and stores what the popup shows.
  And a record made without the popup branch need not lack fare options:
  \<^verbatim>\<open>extractFlightFromCard\<close> reads them from whatever fare popup is visible.
\<close>

theorem fare_trigger_lookup_counterexample:
  "own_button sibling_button_card = None
   \<and> ls_events (process_card 0 sibling_button_card initial_state)
       = [ClickViewPrices 0, ClosePopup 0]
   \<and> ls_flights (process_card 0 sibling_button_card initial_state)
       = [sample_flight\<lparr>fare_options := Some (Payload ''fares of the popup opened'')\<rparr>]
   \<and> own_button stale_popup_card
       = Some \<lparr>has_button_text = True,
               button = \<lparr>trigger_visible = True, trigger_disabled = True\<rparr>\<rparr>
   \<and> ls_events (process_card 0 stale_popup_card initial_state) = []
   \<and> ls_flights (process_card 0 stale_popup_card initial_state)
       = [sample_flight\<lparr>fare_options := Some (Payload ''fares of the popup left open'')\<rparr>]"
  by (simp add: card_defs sample_card_defs)

theorem card_exceptions_are_contained_witness:
  "card_try 0 popup_failing_card initial_state
     = (Inl Thrown, initial_state\<lparr>ls_seen := {''6E 2124_06:15_08:45''},
                                  ls_events := [ClickViewPrices 0]\<rparr>)
   \<and> ls_flights (process_card 0 popup_failing_card initial_state) = []
   \<and> ls_events (process_card 0 popup_failing_card initial_state)
       = [ClickViewPrices 0, LogCardError 0]
   \<and> summary 0 details_failing_card = Some sample_flight
   \<and> generateFlightKey sample_flight \<notin> ls_seen initial_state
   \<and> findViewPricesButtonForCard details_failing_card = Inr None
   \<and> findViewFlightDetailsLinkForCard details_failing_card = Inr (Some True)
   \<and> details_try 0 details_failing_card sample_flight
       = (Inl Thrown, sample_flight, [ClickViewFlightDetails 0])
   \<and> ls_flights (process_card 0 details_failing_card initial_state) = [sample_flight]
   \<and> ls_events (process_card 0 details_failing_card initial_state)
       = [ClickViewFlightDetails 0, LogDetailsError 0, ClickHideFlightDetails 0]
   \<and> resolve_trip_type None sample_page = Inr ''one_way''
   \<and> (\<exists>r. extractFlightsSequentially None sample_page = Some (Inr r))"
proof -
  note p = card_exceptions_are_contained [of 0 popup_failing_card "[]" initial_state]
  note d = card_exceptions_are_contained [of 0 details_failing_card "[]" initial_state]
  have a1: "card_try 0 popup_failing_card initial_state
     = (Inl Thrown, initial_state\<lparr>ls_seen := {''6E 2124_06:15_08:45''},
                                  ls_events := [ClickViewPrices 0]\<rparr>)"
    by (simp add: card_defs sample_card_defs)
  note a23 = p [THEN conjunct2, THEN conjunct1, rule_format, OF a1]
  have a2: "ls_flights (process_card 0 popup_failing_card initial_state) = ls_flights initial_state"
    using a23 by (rule conjunct1)
  have a3: "ls_events (process_card 0 popup_failing_card initial_state)
             = ls_events (initial_state\<lparr>ls_seen := {''6E 2124_06:15_08:45''},
                                        ls_events := [ClickViewPrices 0]\<rparr>) @ [LogCardError 0]"
    using a23 by (rule conjunct2)
  have b1: "summary 0 details_failing_card = Some sample_flight"
    by (simp add: card_defs sample_card_defs)
  have b2: "generateFlightKey sample_flight \<notin> ls_seen initial_state"
    by (simp add: initial_state_def)
  have b3: "findViewPricesButtonForCard details_failing_card = Inr None"
    by (simp add: card_defs details_failing_card_def)
  have b4: "(if popup_guard None then popup_branch 0 details_failing_card sample_flight
             else (Inr sample_flight, [])) = (Inr sample_flight, [])"
    by (simp add: popup_guard_def)
  have b5: "findViewFlightDetailsLinkForCard details_failing_card = Inr (Some True)"
    by (simp add: card_defs details_failing_card_def)
  have b6: "details_try 0 details_failing_card sample_flight
       = (Inl Thrown, sample_flight, [ClickViewFlightDetails 0])"
    by (simp add: details_try_def details_failing_card_def plain_card_def)
  have b7: "findHideFlightDetailsLink_in_catch details_failing_card = Inr True"
    by (simp add: details_failing_card_def plain_card_def)
  have "ls_flights (process_card 0 details_failing_card initial_state)
       = ls_flights initial_state @ [sample_flight]
     \<and> ls_events (process_card 0 details_failing_card initial_state)
       = ls_events initial_state @ [] @ [ClickViewFlightDetails 0] @ [LogDetailsError 0]
         @ (if findHideFlightDetailsLink_in_catch details_failing_card = Inr True
            then [ClickHideFlightDetails 0] else [])"
  proof (rule d [THEN conjunct2, THEN conjunct2, THEN conjunct1, rule_format])
    show "summary 0 details_failing_card = Some sample_flight
          \<and> generateFlightKey sample_flight \<notin> ls_seen initial_state
          \<and> findViewPricesButtonForCard details_failing_card = Inr None
          \<and> (if popup_guard None then popup_branch 0 details_failing_card sample_flight
               else (Inr sample_flight, [])) = (Inr sample_flight, [])
          \<and> findViewFlightDetailsLinkForCard details_failing_card = Inr (Some True)
          \<and> details_try 0 details_failing_card sample_flight
              = (Inl Thrown, sample_flight, [ClickViewFlightDetails 0])"
      by (intro conjI b1 b2 b3 b4 b5 b6)
  qed
  then have b8: "ls_flights (process_card 0 details_failing_card initial_state) = [sample_flight]"
    and b9: "ls_events (process_card 0 details_failing_card initial_state)
       = [ClickViewFlightDetails 0, LogDetailsError 0, ClickHideFlightDetails 0]"
    by (simp_all add: b7 initial_state_def)
  have c1: "resolve_trip_type None sample_page = Inr ''one_way''"
    by (simp add: resolve_trip_type_def truthy_def sample_page_def)
  have c2: "\<exists>r. extractFlightsSequentially None sample_page = Some (Inr r)"
  proof (rule p [THEN conjunct2, THEN conjunct2, THEN conjunct2, THEN conjunct2, rule_format])
    show "resolve_trip_type None sample_page = Inr ''one_way'' \<and> ''one_way'' \<noteq> ''round_trip''"
      by (simp add: c1)
  qed
  from a2 a3 have a2': "ls_flights (process_card 0 popup_failing_card initial_state) = []"
    and a3': "ls_events (process_card 0 popup_failing_card initial_state)
       = [ClickViewPrices 0, LogCardError 0]"
    by (simp_all add: initial_state_def)
  show ?thesis
    by (intro conjI a1 a2' a3' b1 b2 b3 b5 b6 b8 b9 c1 c2)
qed

subsection \<open>Entry points and the batch\<close>

lemma resolve_detected:
  "detectTripTypeFromUI pg = Inr t \<Longrightarrow> resolve_trip_type (Some t) pg = Inr t"
  by (simp add: resolve_trip_type_def truthy_def or_empty_def)

lemma validation_failure_result:
  assumes "resolve_trip_type tt pg = Inr t" and "validateDomesticTripStructure t pg = Inl err"
  shows "extractFlightsSequentially tt pg
         = Some (Inr (error_result (if t \<noteq> [] then t else ''domestic'')
                        (''Validation failed: '' @ err)))"
  using assms by (simp add: extractFlightsSequentially_def sequential_try_def)

text \<open>
  Claim C5. When validation of the page structure fails for the trip type in force,
  \<open>extractFlightsSequentially\<close> returns (it neither throws nor hangs) a payload with no
  flights, a flight count of 0 and the error text "Validation failed: ..."; and
  \<open>performAutoExtraction\<close> on such a page saves nothing and hands over to
  \<open>processNextRoute\<close>, exactly as it does after any other job.
\<close>

theorem structure_not_found_skips_job:
  assumes "resolve_trip_type tt pg = Inr t" and "validateDomesticTripStructure t pg = Inl err"
  shows "(\<exists>r. extractFlightsSequentially tt pg = Some (Inr r)
              \<and> flights r = [] \<and> flights_count (metadata r) = 0
              \<and> error r = Some (''Validation failed: '' @ err))
         \<and> (detectTripTypeFromUI pg = Inr t \<longrightarrow>
              performAutoExtraction params pg b
                = Some (processNextRoute (b\<lparr>autoExtractMode := False\<rparr>)))"
proof
  show "\<exists>r. extractFlightsSequentially tt pg = Some (Inr r)
              \<and> flights r = [] \<and> flights_count (metadata r) = 0
              \<and> error r = Some (''Validation failed: '' @ err)"
    using validation_failure_result [OF assms] by (simp add: error_result_def)
  show "detectTripTypeFromUI pg = Inr t \<longrightarrow>
              performAutoExtraction params pg b
                = Some (processNextRoute (b\<lparr>autoExtractMode := False\<rparr>))"
  proof
    assume d: "detectTripTypeFromUI pg = Inr t"
    have "extractFlightsSequentially (Some t) pg
         = Some (Inr (error_result (if t \<noteq> [] then t else ''domestic'')
                        (''Validation failed: '' @ err)))"
      using resolve_detected [OF d] assms(2) by (rule validation_failure_result)
    then show "performAutoExtraction params pg b
                = Some (processNextRoute (b\<lparr>autoExtractMode := False\<rparr>))"
      using d by (simp add: performAutoExtraction_def error_result_def)
  qed
qed

lemma last_indices:
  fixes cri cdi nr nd :: nat
  assumes "cri < nr" and "cdi < nd" and "cri * nd + cdi + 1 = nr * nd"
  shows "Suc cri = nr \<and> Suc cdi = nd"
proof -
  have a: "cri * nd + cdi + 1 \<le> Suc cri * nd"
    using assms(2) by simp
  have b: "Suc cri * nd \<le> nr * nd"
    using assms(1) by (intro mult_le_mono1) simp
  from a b assms(3) have e1: "cri * nd + cdi + 1 = Suc cri * nd" and e2: "Suc cri * nd = nr * nd"
    by linarith+
  from e1 have "Suc cdi = nd" by simp
  moreover have "nd \<noteq> 0" using assms(2) by simp
  with e2 have "Suc cri = nr" by (simp only: mult_cancel2) simp
  ultimately show ?thesis by simp
qed

text \<open>
  Claim C8. When the stored indices are in range and the completed count they stand for
  equals the number of combinations, \<open>processNextRoute\<close> removes both session-storage
  records, requests no navigation, and the last message it sends is a progress update
  whose completed count and total both equal the number of combinations.
\<close>

theorem last_job_clears_batch_state:
  assumes "remainingRoutes b = Some d"
      and "currentRouteIndex d < length (routes d)"
      and "currentDateIndex d < length (dateOffsets d)"
      and "currentRouteIndex d * length (dateOffsets d) + currentDateIndex d + 1
           = length (routes d) * length (dateOffsets d)"
  shows "remainingRoutes (processNextRoute b) = None
         \<and> pendingExtraction (processNextRoute b) = None
         \<and> (\<exists>ms. messages (processNextRoute b)
                  = ms @ [ProgressUpdate (length (routes d) * length (dateOffsets d))
                            (length (routes d) * length (dateOffsets d)) ''All'' None])
         \<and> location (processNextRoute b) = location b"
proof -
  from last_indices [OF assms(2,3,4)]
  have r: "Suc (currentRouteIndex d) = length (routes d)"
    and dt: "Suc (currentDateIndex d) = length (dateOffsets d)"
    by simp_all
  have n1: "\<not> int (currentDateIndex d) < int (length (dateOffsets d)) - 1"
    using dt by linarith
  have n2: "\<not> int (currentRouteIndex d) < int (length (routes d)) - 1"
    using r by linarith
  show ?thesis
    using assms(1,2) n1 n2
    by (simp add: processNextRoute_def Let_def sendProgressUpdate_def)
qed

lemma rt_result_count:
  "extractRoundTripFlights m pg = Some (Inr r) \<Longrightarrow> flights_count (metadata r) = length (flights r)"
  by (auto simp: extractRoundTripFlights_def error_result_def flights_result_def
           split: sum.splits if_splits option.splits)

text \<open>
  Claim C9. Every payload that \<open>extractFlightsSequentially\<close> or
  \<open>extractRoundTripFlights\<close> returns, on whichever path, reports as its flight count the
  length of its flights list.
\<close>

theorem result_count_matches_flights:
  "(extractFlightsSequentially tt pg = Some (Inr r)
      \<longrightarrow> flights_count (metadata r) = length (flights r))
   \<and> (extractRoundTripFlights m pg = Some (Inr r')
      \<longrightarrow> flights_count (metadata r') = length (flights r'))"
proof (intro conjI impI)
  assume "extractRoundTripFlights m pg = Some (Inr r')"
  then show "flights_count (metadata r') = length (flights r')"
    by (rule rt_result_count)
next
  assume a: "extractFlightsSequentially tt pg = Some (Inr r)"
  then show "flights_count (metadata r) = length (flights r)"
    by (auto simp: extractFlightsSequentially_def sequential_try_def error_result_def
                   flights_result_def
             split: option.splits sum.splits if_splits dest: rt_result_count)
qed

lemma process_card_length:
  "length (ls_flights (process_card i c st)) \<le> Suc (length (ls_flights st))"
proof (cases "summary i c")
  case None
  then show ?thesis using process_card_no_summary [of i c st] by simp
next
  case (Some f)
  then show ?thesis
    using process_card_duplicate [OF Some, of st] process_card_new [OF Some, of st]
    by (cases "generateFlightKey f \<in> ls_seen st") auto
qed

lemma process_cards_length:
  "length (ls_flights (process_cards i cs st)) \<le> length (ls_flights st) + length cs"
proof (induction cs arbitrary: i st)
  case Nil
  then show ?case by simp
next
  case (Cons c cs)
  have "length (ls_flights (process_cards (Suc i) cs (process_card i c st)))
        \<le> length (ls_flights (process_card i c st)) + length cs"
    by (rule Cons.IH)
  also have "\<dots> \<le> Suc (length (ls_flights st)) + length cs"
    using process_card_length [of i c st] by simp
  finally show ?case by simp
qed

lemma visibleCards_length: "length (visibleCards flightCards) \<le> 200"
  by (simp add: visibleCards_def maxFlights_def)

text \<open>
  Claim C4, as the code has it. The enumeration that \<^verbatim>\<open>extractFlightsSequentially\<close>
  makes for a trip type other than round trip never holds more than 200 cards, and a
  payload that \<^verbatim>\<open>extractFlightsSequentially\<close> returns for such a trip type never
  holds more than 200 records. The statement is about this function only; the extraction
  functions for international pages are separate entry points with enumerations of their
  own.
\<close>

theorem one_way_enumeration_capped:
  "length (visibleCards flightCards) \<le> 200
   \<and> (\<forall>t r. resolve_trip_type tt pg = Inr t \<and> t \<noteq> ''round_trip''
             \<and> extractFlightsSequentially tt pg = Some (Inr r)
        \<longrightarrow> length (flights r) \<le> 200)"
proof (intro conjI allI impI)
  show "length (visibleCards flightCards) \<le> 200"
    by (rule visibleCards_length)
next
  fix t r
  assume a: "resolve_trip_type tt pg = Inr t \<and> t \<noteq> ''round_trip''
             \<and> extractFlightsSequentially tt pg = Some (Inr r)"
  have loop: "length (ls_flights (process_cards 0 (visibleCards cs) initial_state)) \<le> 200" for cs
    using process_cards_length [of 0 "visibleCards cs" initial_state] visibleCards_length [of cs]
    by (simp add: initial_state_def)
  from a show "length (flights r) \<le> 200"
    using loop
    by (auto simp: extractFlightsSequentially_def sequential_try_def error_result_def
                   flights_result_def
             split: option.splits sum.splits if_splits)
qed

lemmas batch_defs = processNextRoute_def sendProgressUpdate_def navigate_to_def Let_def
  sample_browser_def sample_batch_def single_job_browser_def valid_departure_def

theorem structure_not_found_skips_job_witness:
  "resolve_trip_type None no_split_view_page = Inr ''round_trip''
   \<and> validateDomesticTripStructure ''round_trip'' no_split_view_page
       = Inl ''DOMESTIC round trip structure not found. Required element: div.splitVw''
   \<and> detectTripTypeFromUI no_split_view_page = Inr ''round_trip''
   \<and> (\<exists>r. extractFlightsSequentially None no_split_view_page = Some (Inr r)
            \<and> flights r = [] \<and> flights_count (metadata r) = 0
            \<and> error r = Some (''Validation failed: ''
                  @ ''DOMESTIC round trip structure not found. Required element: div.splitVw''))
   \<and> performAutoExtraction sample_params no_split_view_page sample_browser
       = Some (processNextRoute (sample_browser\<lparr>autoExtractMode := False\<rparr>))
   \<and> location (processNextRoute (sample_browser\<lparr>autoExtractMode := False\<rparr>))
       = Some \<lparr>url_source = ''BLR'', url_dest = ''PAT'', url_days_offset = 7\<rparr>"
proof -
  have h1: "resolve_trip_type None no_split_view_page = Inr ''round_trip''"
    by (simp add: page_defs)
  have h2: "validateDomesticTripStructure ''round_trip'' no_split_view_page
       = Inl ''DOMESTIC round trip structure not found. Required element: div.splitVw''"
    by (simp add: page_defs)
  have h3: "detectTripTypeFromUI no_split_view_page = Inr ''round_trip''"
    by (simp add: page_defs)
  note t = structure_not_found_skips_job [OF h1 h2, of sample_params sample_browser]
  have t1: "\<exists>r. extractFlightsSequentially None no_split_view_page = Some (Inr r)
            \<and> flights r = [] \<and> flights_count (metadata r) = 0
            \<and> error r = Some (''Validation failed: ''
                  @ ''DOMESTIC round trip structure not found. Required element: div.splitVw'')"
    using t by (rule conjunct1)
  have t2: "performAutoExtraction sample_params no_split_view_page sample_browser
       = Some (processNextRoute (sample_browser\<lparr>autoExtractMode := False\<rparr>))"
    using t [THEN conjunct2] h3 by (rule mp)
  have n: "location (processNextRoute (sample_browser\<lparr>autoExtractMode := False\<rparr>))
       = Some \<lparr>url_source = ''BLR'', url_dest = ''PAT'', url_days_offset = 7\<rparr>"
    by (simp add: batch_defs)
  show ?thesis
    by (intro conjI h1 h2 h3 t1 t2 n)
qed

theorem last_job_clears_batch_state_witness:
  "remainingRoutes single_job_browser = Some (sample_batch\<lparr>dateOffsets := [1]\<rparr>)
   \<and> currentRouteIndex (sample_batch\<lparr>dateOffsets := [1]\<rparr>)
       < length (routes (sample_batch\<lparr>dateOffsets := [1]\<rparr>))
   \<and> currentDateIndex (sample_batch\<lparr>dateOffsets := [1]\<rparr>)
       < length (dateOffsets (sample_batch\<lparr>dateOffsets := [1]\<rparr>))
   \<and> remainingRoutes (processNextRoute single_job_browser) = None
   \<and> pendingExtraction (processNextRoute single_job_browser) = None
   \<and> messages (processNextRoute single_job_browser)
       = [ProgressUpdate 1 1 ''BLR-PAT'' (Some 1), ProgressUpdate 1 1 ''All'' None]"
proof -
  let ?d = "sample_batch\<lparr>dateOffsets := [1]\<rparr>"
  have h1: "remainingRoutes single_job_browser = Some ?d"
    by (simp add: single_job_browser_def)
  have h2: "currentRouteIndex ?d < length (routes ?d)"
    by (simp add: sample_batch_def)
  have h3: "currentDateIndex ?d < length (dateOffsets ?d)"
    by (simp add: sample_batch_def)
  have h4: "currentRouteIndex ?d * length (dateOffsets ?d) + currentDateIndex ?d + 1
            = length (routes ?d) * length (dateOffsets ?d)"
    by (simp add: sample_batch_def)
  note t = last_job_clears_batch_state [OF h1 h2 h3 h4]
  have m: "messages (processNextRoute single_job_browser)
       = [ProgressUpdate 1 1 ''BLR-PAT'' (Some 1), ProgressUpdate 1 1 ''All'' None]"
    by (simp add: batch_defs)
  show ?thesis
    using t by (intro conjI h1 h2 h3 m) simp_all
qed

lemma no_split_view_round_trip_run:
  "extractRoundTripFlights maxFlights no_split_view_page
   = Some (Inr (error_result ''round_trip''
       (''Validation failed: ''
        @ ''DOMESTIC round trip structure not found. Required element: div.splitVw'')))"
  by (simp add: extractRoundTripFlights_def page_defs)

theorem result_count_matches_flights_witness:
  "extractFlightsSequentially None sample_page
     = Some (Inr (flights_result ''one_way'' [sample_flight]))
   \<and> flights_count (metadata (flights_result ''one_way'' [sample_flight])) = 1
   \<and> length (flights (flights_result ''one_way'' [sample_flight])) = 1
   \<and> extractRoundTripFlights maxFlights no_split_view_page
       = Some (Inr (error_result ''round_trip''
           (''Validation failed: ''
            @ ''DOMESTIC round trip structure not found. Required element: div.splitVw'')))
   \<and> flights_count (metadata (error_result ''round_trip''
           (''Validation failed: ''
            @ ''DOMESTIC round trip structure not found. Required element: div.splitVw'')))
       = length (flights (error_result ''round_trip''
           (''Validation failed: ''
            @ ''DOMESTIC round trip structure not found. Required element: div.splitVw'')))"
proof -
  note t = result_count_matches_flights
    [where tt = None and pg = sample_page and r = "flights_result ''one_way'' [sample_flight]"]
  note u = result_count_matches_flights
    [where m = maxFlights and pg = no_split_view_page
       and r' = "error_result ''round_trip''
           (''Validation failed: ''
            @ ''DOMESTIC round trip structure not found. Required element: div.splitVw'')"]
  have c1: "flights_count (metadata (flights_result ''one_way'' [sample_flight]))
            = length (flights (flights_result ''one_way'' [sample_flight]))"
    using t [THEN conjunct1] sample_page_run by (rule mp)
  have c2: "length (flights (flights_result ''one_way'' [sample_flight])) = 1"
    by (simp add: flights_result_def)
  have c3: "flights_count (metadata (error_result ''round_trip''
           (''Validation failed: ''
            @ ''DOMESTIC round trip structure not found. Required element: div.splitVw'')))
       = length (flights (error_result ''round_trip''
           (''Validation failed: ''
            @ ''DOMESTIC round trip structure not found. Required element: div.splitVw'')))"
    using u [THEN conjunct2] no_split_view_round_trip_run by (rule mp)
  show ?thesis
    using c1 c2 by (intro conjI sample_page_run no_split_view_round_trip_run c3) simp_all
qed

theorem one_way_enumeration_capped_witness:
  "resolve_trip_type None sample_page = Inr ''one_way''
   \<and> ''one_way'' \<noteq> ''round_trip''
   \<and> extractFlightsSequentially None sample_page
       = Some (Inr (flights_result ''one_way'' [sample_flight]))
   \<and> length (flights (flights_result ''one_way'' [sample_flight])) \<le> 200
   \<and> length (visibleCards (replicate 250 (plain_card sample_flight))) = 200"
proof -
  have h1: "resolve_trip_type None sample_page = Inr ''one_way''"
    by (simp add: page_defs)
  have h2: "''one_way'' \<noteq> ''round_trip''"
    by simp
  note t = one_way_enumeration_capped
    [of "replicate 250 (plain_card sample_flight)" None sample_page]
  have c: "length (flights (flights_result ''one_way'' [sample_flight])) \<le> 200"
  proof (rule t [THEN conjunct2, rule_format])
    show "resolve_trip_type None sample_page = Inr ''one_way'' \<and> ''one_way'' \<noteq> ''round_trip''
          \<and> extractFlightsSequentially None sample_page
              = Some (Inr (flights_result ''one_way'' [sample_flight]))"
      by (intro conjI h1 h2 sample_page_run)
  qed
  have e: "length (visibleCards (replicate 250 (plain_card sample_flight))) = 200"
    by (simp add: visibleCards_def validCards_def maxFlights_def plain_card_def)
  show ?thesis
    by (intro conjI h1 h2 sample_page_run c e)
qed

subsection \<open>A round-trip pane with more than 200 cards\<close>

lemma show_nat_nonempty: "show_nat n \<noteq> []"
  by (subst show_nat.simps) simp

lemma digit_char_inj:
  assumes "a < 10" and "b < 10" and "char_of (48 + a) = (char_of (48 + b) :: char)"
  shows "a = (b::nat)"
proof -
  have "(of_char (char_of (48 + a) :: char) :: nat) = of_char (char_of (48 + b) :: char)"
    using assms(3) by simp
  then have "(48 + a) mod 256 = (48 + b) mod 256"
    by (simp only: of_char_of)
  then show ?thesis
    using assms(1,2) by simp
qed

lemma show_nat_inj: "show_nat n = show_nat m \<Longrightarrow> n = m"
proof (induction n arbitrary: m rule: show_nat.induct)
  case (1 n)
  show ?case
  proof (cases "n < 10")
    case small: True
    show ?thesis
    proof (cases "m < 10")
      case True
      then show ?thesis
        using "1.prems" small digit_char_inj [of n m]
        by (simp add: show_nat.simps [of n] show_nat.simps [of m])
    next
      case False
      then have "length (show_nat m) \<ge> 2"
        using show_nat_nonempty [of "m div 10"]
        by (simp add: show_nat.simps [of m] Suc_le_eq)
      moreover have "length (show_nat n) = 1"
        using small by (simp add: show_nat.simps [of n])
      ultimately show ?thesis using "1.prems" by simp
    qed
  next
    case big: False
    show ?thesis
    proof (cases "m < 10")
      case True
      then have "length (show_nat m) = 1"
        by (simp add: show_nat.simps [of m])
      moreover have "length (show_nat n) \<ge> 2"
        using big show_nat_nonempty [of "n div 10"]
        by (simp add: show_nat.simps [of n] Suc_le_eq)
      ultimately show ?thesis using "1.prems" by simp
    next
      case False
      from "1.prems" big False
      have e: "show_nat (n div 10) @ [char_of (48 + n mod 10)]
               = show_nat (m div 10) @ [char_of (48 + m mod 10)]"
        by (simp add: show_nat.simps [of n] show_nat.simps [of m])
      then have "show_nat (n div 10) = show_nat (m div 10)"
        and c: "char_of (48 + n mod 10) = (char_of (48 + m mod 10) :: char)"
        by simp_all
      then have d: "n div 10 = m div 10"
        using "1.IH" [OF big] by simp
      have "n mod 10 = m mod 10"
        using c by (intro digit_char_inj) simp_all
      with d show ?thesis
        by (metis div_mult_mod_eq)
    qed
  qed
qed

lemma show_nat_eq_iff [simp]: "show_nat n = show_nat m \<longleftrightarrow> n = m"
  using show_nat_inj by blast

lemmas numbered_defs = numbered_flight_def numbered_rt_card_def listed_flight_def
  sample_flight_def truthy_def or_empty_def

lemma numbered_card_id: "rt_card_id n (numbered_rt_card n) = show_nat n @ ''-IndiGo''"
  by (simp add: rt_card_id_def numbered_defs)

lemma numbered_annotate:
  "rt_annotate n ''outbound'' None (numbered_flight n)
   = (numbered_flight n)\<lparr>index := n, direction := Some ''outbound''\<rparr>"
  by (simp add: rt_annotate_def numbered_defs)

lemma numbered_valid:
  "isValidFlight ((numbered_flight n)\<lparr>index := n, direction := Some ''outbound''\<rparr>)"
  by (simp add: isValidFlight_def numbered_defs)

lemma numbered_key1:
  "generateFlightKey ((numbered_flight n)\<lparr>index := n, direction := Some ''outbound''\<rparr>)
   = ''outbound_6E_'' @ show_nat n @ ''_08:45_Bengaluru_Patna''"
  by (simp add: generateFlightKey_def with_direction_def numbered_defs)

lemma numbered_details:
  "rt_details_step (numbered_rt_card n)
     ((numbered_flight n)\<lparr>index := n, direction := Some ''outbound''\<rparr>)
   = listed_flight n"
  by (simp add: rt_details_step_def merge_details_def Let_def numbered_defs)

lemma listed_valid: "isValidFlight (listed_flight n)"
  by (simp add: isValidFlight_def numbered_defs)

lemma listed_key:
  "generateFlightKey (listed_flight n) = ''outbound_6E 2124_'' @ show_nat n @ ''_08:45''"
  by (simp add: generateFlightKey_def with_direction_def numbered_defs)

lemma listed_render:
  "render (direction (listed_flight n)) = ''outbound''"
  "render (airline (listed_flight n)) = ''IndiGo''"
  "render (departure_time (listed_flight n)) = show_nat n"
  "render (arrival_time (listed_flight n)) = ''08:45''"
  by (simp_all add: render_def numbered_defs)

lemma key1_fresh:
  "''outbound_6E_'' @ show_nat n @ ''_08:45_Bengaluru_Patna'' \<notin> (\<Union>j \<in> {..<n}. numbered_keys j)"
  by (auto simp: numbered_keys_def)

lemma key2_fresh:
  "''outbound_6E 2124_'' @ show_nat n @ ''_08:45'' \<notin> (\<Union>j \<in> {..<n}. numbered_keys j)"
  by (auto simp: numbered_keys_def)

lemma not_already_added:
  "(\<exists>g \<in> set (map listed_flight [0..<n]).
         departure_time g = departure_time (listed_flight n)
         \<and> arrival_time g = arrival_time (listed_flight n)
         \<and> airline g = airline (listed_flight n)
         \<and> direction g = direction (listed_flight n)) = False"
  by (auto simp: numbered_defs)

lemma crowded_step:
  "rt_process_card ''outbound'' None n (numbered_rt_card n) (crowded_state n)
   = crowded_state (Suc n)"
proof -
  have fresh_id: "show_nat n @ ''-IndiGo'' \<notin> rt_processed (crowded_state n)"
    by (auto simp: crowded_state_def)
  have ex: "rt_extractFlightFromCard (numbered_rt_card n) = Inr (numbered_flight n)"
    by (simp add: numbered_rt_card_def)
  have len: "length (rt_flights (crowded_state n)) = n"
    by (simp add: crowded_state_def)
  have seen: "rt_seen (crowded_state n) = (\<Union>j \<in> {..<n}. numbered_keys j)"
    by (simp add: crowded_state_def)
  have fl: "rt_flights (crowded_state n) = map listed_flight [0..<n]"
    by (simp add: crowded_state_def)
  have k12: "''outbound_6E 2124_'' @ show_nat n @ ''_08:45''
             \<noteq> ''outbound_6E_'' @ show_nat n @ ''_08:45_Bengaluru_Patna''"
    by simp
  have "rt_process_card ''outbound'' None n (numbered_rt_card n) (crowded_state n)
        = (crowded_state n)
            \<lparr>rt_processed := insert (show_nat n @ ''-IndiGo'') (rt_processed (crowded_state n)),
             rt_flights := map listed_flight [0..<n] @ [listed_flight n],
             rt_seen := insert (''outbound-IndiGo-'' @ show_nat n @ ''-08:45'')
               (insert (''outbound_6E 2124_'' @ show_nat n @ ''_08:45'')
                 (insert (''outbound_6E_'' @ show_nat n @ ''_08:45_Bengaluru_Patna'')
                    (\<Union>j \<in> {..<n}. numbered_keys j)))\<rparr>"
    using fresh_id key1_fresh [of n] key2_fresh [of n] k12
    by (simp add: rt_process_card_def Let_def numbered_card_id ex len numbered_annotate
        numbered_valid isDuplicateFlight_def numbered_key1 seen numbered_details listed_valid
        listed_key fl listed_render not_already_added del: set_map set_upt)
  also have "\<dots> = crowded_state (Suc n)"
    by (auto simp: crowded_state_def lessThan_Suc numbered_keys_def)
  finally show ?thesis .
qed

lemma crowded_loop:
  "k \<le> n \<Longrightarrow>
   rt_process_cards ''outbound'' None k (map numbered_rt_card [k..<n]) (crowded_state k)
   = crowded_state n"
proof (induction "n - k" arbitrary: k)
  case 0
  then show ?case by simp
next
  case (Suc d)
  then have lt: "k < n" and d: "d = n - Suc k" and le: "Suc k \<le> n"
    by simp_all
  have "rt_process_cards ''outbound'' None k (map numbered_rt_card [k..<n]) (crowded_state k)
        = rt_process_cards ''outbound'' None (Suc k) (map numbered_rt_card [Suc k..<n])
            (rt_process_card ''outbound'' None k (numbered_rt_card k) (crowded_state k))"
    using lt by (simp add: upt_conv_Cons)
  also have "\<dots> = rt_process_cards ''outbound'' None (Suc k) (map numbered_rt_card [Suc k..<n])
                      (crowded_state (Suc k))"
    by (simp only: crowded_step)
  also have "\<dots> = crowded_state n"
    using Suc.hyps(1) [OF d le] .
  finally show ?case .
qed

lemma crowded_visible: "visiblePaneCards (crowded_pane n) = map numbered_rt_card [0..<n]"
  by (simp add: visiblePaneCards_def allActualCards_def crowded_pane_def numbered_rt_card_def
      filter_map comp_def)

lemma crowded_processed_card: "card (rt_processed (crowded_state n)) = n"
proof -
  have "inj_on (\<lambda>j. show_nat j @ ''-IndiGo'') {..<n}"
    by (rule inj_onI) simp
  then show ?thesis
    by (simp add: crowded_state_def card_image)
qed

lemma scroll_pane_terminates:
  "0 < scrollStep \<Longrightarrow> scroll_pane scrollPos bound scrollStep = Some ()"
proof (induction "bound - scrollPos" arbitrary: scrollPos rule: less_induct)
  case less
  show ?case
  proof (cases "scrollPos < bound")
    case True
    then have "bound - (scrollPos + scrollStep) < bound - scrollPos"
      using less.prems by simp
    then have "scroll_pane (scrollPos + scrollStep) bound scrollStep = Some ()"
      using less.hyps less.prems by blast
    then show ?thesis
      using True by (subst scroll_pane.simps) simp
  next
    case False
    then show ?thesis by (subst scroll_pane.simps) simp
  qed
qed

lemma crowded_pane_cards:
  "rt_pane_cards 0 (crowded_pane n) \<lparr>rt_flights = [], rt_seen = {}, rt_processed = {}\<rparr>
   = crowded_state n"
proof -
  have z: "crowded_state 0 = \<lparr>rt_flights = [], rt_seen = {}, rt_processed = {}\<rparr>"
    by (simp add: crowded_state_def)
  have d: "dateText (crowded_pane n) = None"
    by (simp add: crowded_pane_def)
  have l: "rt_process_cards ''outbound'' None 0 (map numbered_rt_card [0..<n])
             \<lparr>rt_flights = [], rt_seen = {}, rt_processed = {}\<rparr> = crowded_state n"
    using crowded_loop [of 0 n] by (simp add: z)
  show ?thesis
    by (simp add: rt_pane_cards_def Let_def crowded_visible d l crowded_processed_card)
qed

lemma crowded_round_trip:
  assumes "0 < n"
  shows "extractRoundTripFlights m (crowded_page n)
         = Some (Inr (flights_result ''round_trip'' (map listed_flight [0..<n])))"
proof -
  have v: "validateDomesticTripStructure ''round_trip'' (crowded_page n) = Inr [crowded_pane n]"
    using assms by (simp add: validateDomesticTripStructure_def crowded_page_def crowded_pane_def)
  have c: "clickOptionsAvailableLinksInPane (crowded_pane n) = Inr ()"
    and sh: "scrollHeight (crowded_pane n) = 1200" and ch: "clientHeight (crowded_pane n) = 600"
    by (simp_all add: crowded_pane_def)
  have p: "rt_process_panes 0 [crowded_pane n] \<lparr>rt_flights = [], rt_seen = {}, rt_processed = {}\<rparr>
           = Some (Inr (crowded_state n))"
    by (simp add: c sh ch scroll_pane_terminates crowded_pane_cards)
  show ?thesis
    by (simp add: extractRoundTripFlights_def v p crowded_state_def
        del: rt_process_panes.simps)
qed

lemma crowded_sequential:
  assumes "0 < n"
  shows "extractFlightsSequentially None (crowded_page n)
         = Some (Inr (flights_result ''round_trip'' (map listed_flight [0..<n])))"
proof -
  have r: "resolve_trip_type None (crowded_page n) = Inr ''round_trip''"
    by (simp add: resolve_trip_type_def truthy_def crowded_page_def)
  have v: "validateDomesticTripStructure ''round_trip'' (crowded_page n) = Inr [crowded_pane n]"
    using assms by (simp add: validateDomesticTripStructure_def crowded_page_def crowded_pane_def)
  show ?thesis
    by (simp add: extractFlightsSequentially_def sequential_try_def r v
        crowded_round_trip [OF assms])
qed

text \<open>
  Claim C4 as the spec words it holds the cap for every trip kind. A round-trip page
  whose outbound pane lists 201 flights has all 201 cards enumerated, and the payload
  that \<open>extractFlightsSequentially\<close> returns for it holds 201 records.
\<close>

theorem round_trip_exceeds_cap_counterexample:
  "length (visiblePaneCards (crowded_pane 201)) = 201
   \<and> extractFlightsSequentially None (crowded_page 201)
       = Some (Inr (flights_result ''round_trip'' (map listed_flight [0..<201])))
   \<and> length (flights (flights_result ''round_trip'' (map listed_flight [0..<201]))) = 201"
proof -
  have "(0::nat) < 201" by simp
  then show ?thesis
    by (simp add: crowded_visible crowded_sequential flights_result_def del: upt_rec_numeral)
qed

end
